theory Spec2Isabelle
  imports Complex_Main "HOL-Library.Multiset" "HOL-Library.Product_Lexorder"
    "HOL-Library.Monad_Syntax"
begin

section \<open>Strings and arrays of the host language\<close>

text \<open>
  Strings are sequences of code units. The patterns the scripts search for
  (\<open>domain:\<close>, \<open>portfolio:\<close>, \<open>.yml\<close>) are ASCII, so matching them on bytes and on
  UTF-16 code units agrees.
\<close>

text \<open>\<open>s.startsWith(p)\<close>\<close>

fun startsWith :: "string \<Rightarrow> string \<Rightarrow> bool" where
  "startsWith s [] = True"
| "startsWith [] (c # p) = False"
| "startsWith (d # s) (c # p) = (d = c \<and> startsWith s p)"

text \<open>\<open>s.endsWith(p)\<close>\<close>

definition endsWith :: "string \<Rightarrow> string \<Rightarrow> bool" where
  "endsWith s p = startsWith (rev s) (rev p)"

text \<open>
  \<open>s.replace(pat, rep)\<close> with a string pattern: the first occurrence of \<open>pat\<close>,
  wherever it is, is replaced. (The scripts only pass the replacement \<open>''''\<close>, which has
  no substitution patterns.)
\<close>

fun replace :: "string \<Rightarrow> string \<Rightarrow> string \<Rightarrow> string" where
  "replace [] pat rep = (if pat = [] then rep else [])"
| "replace (c # s) pat rep =
     (if startsWith (c # s) pat then rep @ drop (length pat) (c # s)
      else c # replace s pat rep)"

text \<open>
  \<open>[...new Set(xs)]\<close>: a set keeps the insertion order of the first occurrence of each
  value.
\<close>

definition Set_add :: "'a list \<Rightarrow> 'a \<Rightarrow> 'a list" where
  "Set_add acc x = (if x \<in> set acc then acc else acc @ [x])"

definition new_Set :: "'a list \<Rightarrow> 'a list" where
  "new_Set xs = foldl Set_add [] xs"

section \<open>The data model (\<open>src/types/project.ts\<close>)\<close>

datatype Status = Complete | InProgress | Archived
datatype Tier = Flagship | Mvp | Experiment
datatype Visibility = Featured | Portfolio | Labs | Ventures
datatype Source = Github | Manual

text \<open>A number of the host language: a finite value, an infinity or \<open>NaN\<close>.\<close>

datatype js_number = Finite rat | PosInfinity | NegInfinity | NaN

text \<open>A value of \<open>z.union([z.number(), z.string()])\<close>.\<close>

datatype metric = MetricNumber js_number | MetricString string

text \<open>
  \<open>ProjectManifest\<close>: every field is optional. The fields carry the prefix \<open>m_\<close> to
  keep them apart from the fields of \<open>Project\<close>.
\<close>

record ProjectManifest =
  m_title :: "string option"
  m_status :: "Status option"
  m_tier :: "Tier option"
  m_stack :: "string list option"
  m_roles :: "string list option"
  m_live_url :: "string option"
  m_demo_url :: "string option"
  m_repo_url :: "string option"
  m_homepage_url :: "string option"
  m_highlights :: "string list option"
  m_metrics :: "(string \<times> metric) list option"
  m_topics :: "string list option"
  m_visibility :: "Visibility option"

record Project =
  slug :: string
  title :: string
  description :: "string option"
  source :: Source
  status :: Status
  tier :: Tier
  topics :: "string list"
  domains :: "string list"
  stack :: "string list"
  roles :: "string list"
  repoUrl :: "string option"
  homepageUrl :: "string option"
  liveUrl :: "string option"
  demoUrl :: "string option"
  stars :: js_number
  pushedAt :: string
  ogImage :: "string option"
  highlights :: "string list option"
  metrics :: "(string \<times> metric) list option"
  manifest :: "ProjectManifest option"
  visibility :: Visibility

text \<open>
  \<open>GitHubRepository\<close>, the record the GraphQL query returns. \<open>repositoryTopics\<close> holds
  the names \<open>repositoryTopics.nodes[i].topic.name\<close>, \<open>object_text\<close> is \<open>object?.text\<close>
  (\<open>None\<close> when \<open>object\<close> is \<open>null\<close>). Fields that would clash with \<open>Project\<close> carry
  the prefix \<open>r_\<close>.
\<close>

record GitHubRepository =
  name :: string
  r_description :: "string option"
  stargazerCount :: js_number
  r_pushedAt :: string
  isArchived :: bool
  isFork :: bool
  r_homepageUrl :: "string option"
  openGraphImageUrl :: "string option"
  url :: string
  repositoryTopics :: "string list"
  object_text :: "string option"

section \<open>Field derivation (\<open>scripts/normalize.ts\<close>)\<close>

definition extractDomainsFromTopics :: "string list \<Rightarrow> string list" where
  "extractDomainsFromTopics ts =
     map (\<lambda>topic. replace topic ''domain:'' '''')
       (filter (\<lambda>topic. startsWith topic ''domain:'') ts)"

text \<open>\<open>manifest?.status\<close> and its siblings: the field of a manifest that may be \<open>null\<close>.\<close>

definition field :: "(ProjectManifest \<Rightarrow> 'a option) \<Rightarrow> ProjectManifest option \<Rightarrow> 'a option" where
  "field f m = (case m of None \<Rightarrow> None | Some x \<Rightarrow> f x)"

definition deriveStatus :: "ProjectManifest option \<Rightarrow> string list \<Rightarrow> Status" where
  "deriveStatus m ts =
     (case field m_status m of
        Some s \<Rightarrow> s
      | None \<Rightarrow>
         (let portfolioTopics = filter (\<lambda>topic. startsWith topic ''portfolio:'') ts in
          case portfolioTopics of
            [] \<Rightarrow> InProgress
          | t # _ \<Rightarrow>
             (let statusTopic = replace t ''portfolio:'' '''' in
              if statusTopic = ''complete'' then Complete
              else if statusTopic = ''archived'' then Archived
              else InProgress)))"

definition deriveTier :: "ProjectManifest option \<Rightarrow> Tier" where
  "deriveTier m = (case field m_tier m of Some t \<Rightarrow> t | None \<Rightarrow> Experiment)"

definition deriveVisibility :: "ProjectManifest option \<Rightarrow> string list \<Rightarrow> Visibility" where
  "deriveVisibility m ts =
     (case field m_visibility m of
        Some v \<Rightarrow> v
      | None \<Rightarrow>
         (let portfolioTopics = filter (\<lambda>topic. startsWith topic ''portfolio:'') ts in
          case portfolioTopics of
            [] \<Rightarrow> Portfolio
          | t # _ \<Rightarrow>
             (let visibilityTopic = replace t ''portfolio:'' '''' in
              if visibilityTopic = ''featured'' then Featured
              else if visibilityTopic = ''portfolio'' then Portfolio
              else if visibilityTopic = ''labs'' then Labs
              else if visibilityTopic = ''ventures'' then Ventures
              else Portfolio)))"

section \<open>Ranking (\<open>scripts/normalize.ts\<close>)\<close>

definition tierOrder :: "Tier \<Rightarrow> int" where
  "tierOrder t = (case t of Flagship \<Rightarrow> 0 | Mvp \<Rightarrow> 1 | Experiment \<Rightarrow> 2)"

definition statusOrder :: "Status \<Rightarrow> int" where
  "statusOrder s = (case s of Complete \<Rightarrow> 0 | InProgress \<Rightarrow> 1 | Archived \<Rightarrow> 2)"

text \<open>
  \<open>compareProjects\<close>. The parameter \<open>getTime\<close> stands for the platform's
  \<open>new Date(s).getTime()\<close>: the milliseconds since the epoch that the string denotes, or
  \<open>None\<close> for \<open>NaN\<close> (an invalid date). A difference with a \<open>NaN\<close> operand is \<open>NaN\<close>,
  here \<open>None\<close>. The sort only looks at the sign of the result, which the rounding of a
  difference of two integral time values preserves, so the difference is taken in
  \<open>int\<close>.
\<close>

definition compareProjects :: "(string \<Rightarrow> int option) \<Rightarrow> Project \<Rightarrow> Project \<Rightarrow> int option" where
  "compareProjects getTime a b =
     (let tierComparison = tierOrder (tier a) - tierOrder (tier b) in
      if tierComparison \<noteq> 0 then Some tierComparison
      else
        (let statusComparison = statusOrder (status a) - statusOrder (status b) in
         if statusComparison \<noteq> 0 then Some statusComparison
         else
           (case (getTime (pushedAt b), getTime (pushedAt a)) of
              (Some tb, Some ta) \<Rightarrow> Some (tb - ta)
            | _ \<Rightarrow> None)))"

text \<open>
  \<open>Array.prototype.sort(comparefn)\<close>. The language standard reads the result of the
  comparison through \<open>SortCompare\<close>, which turns \<open>NaN\<close> into \<open>+0\<close>, and requires the
  sort to be stable. For a consistent comparison function the result is thereby
  determined: it is the one stable arrangement in ascending order, which insertion from
  the right computes. (For an inconsistent comparison function the standard leaves the
  order to the implementation; the theorems below on the order assume timestamps that
  parse.)
\<close>

definition SortCompare :: "('a \<Rightarrow> 'a \<Rightarrow> int option) \<Rightarrow> 'a \<Rightarrow> 'a \<Rightarrow> int" where
  "SortCompare comparefn x y = (case comparefn x y of None \<Rightarrow> 0 | Some v \<Rightarrow> v)"

fun sort_insert :: "('a \<Rightarrow> 'a \<Rightarrow> int option) \<Rightarrow> 'a \<Rightarrow> 'a list \<Rightarrow> 'a list" where
  "sort_insert comparefn x [] = [x]"
| "sort_insert comparefn x (y # ys) =
     (if SortCompare comparefn x y \<le> 0 then x # y # ys
      else y # sort_insert comparefn x ys)"

fun Array_sort :: "('a \<Rightarrow> 'a \<Rightarrow> int option) \<Rightarrow> 'a list \<Rightarrow> 'a list" where
  "Array_sort comparefn [] = []"
| "Array_sort comparefn (x # xs) = sort_insert comparefn x (Array_sort comparefn xs)"

definition sortProjects :: "(string \<Rightarrow> int option) \<Rightarrow> Project list \<Rightarrow> Project list" where
  "sortProjects getTime projects = Array_sort (compareProjects getTime) projects"

text \<open>\<open>a\<close> may stand before \<open>b\<close>: the comparison, as the sort reads it, is not positive.\<close>

abbreviation precedes :: "(string \<Rightarrow> int option) \<Rightarrow> Project \<Rightarrow> Project \<Rightarrow> bool" where
  "precedes getTime a b \<equiv> SortCompare (compareProjects getTime) a b \<le> 0"

section \<open>Values read from YAML and their validation\<close>

text \<open>
  What \<open>yaml.load\<close> returns is untyped: \<open>undefined\<close> for an empty document, or a
  value of YAML's types. \<open>JDate\<close> is the date object that an unquoted timestamp loads
  as: it is truthy, has none of the properties the scripts read, and no schema below
  accepts it. (Values that only an explicit tag produces, such as binary data, are not
  modelled.)
\<close>

datatype js_value =
    JUndefined
  | JNull
  | JBoolean bool
  | JNumber js_number
  | JString string
  | JArray "js_value list"
  | JObject "(string \<times> js_value) list"
  | JDate

text \<open>What the scripts catch: anything a library call or a \<open>throw\<close> raises.\<close>

datatype exn =
    YAMLException | ZodError | TypeError | IOError | ConnectionError
  | MissingTitle | SourceNotManual

text \<open>Truthiness, as \<open>!v\<close>, \<open>v || d\<close> and \<open>v && w\<close> read it.\<close>

definition truthy :: "js_value \<Rightarrow> bool" where
  "truthy v =
     (case v of
        JUndefined \<Rightarrow> False
      | JNull \<Rightarrow> False
      | JBoolean b \<Rightarrow> b
      | JNumber n \<Rightarrow> n \<noteq> Finite 0 \<and> n \<noteq> NaN
      | JString s \<Rightarrow> s \<noteq> []
      | _ \<Rightarrow> True)"

text \<open>\<open>v || d\<close> and \<open>v ?? d\<close>\<close>

definition or_value :: "js_value \<Rightarrow> js_value \<Rightarrow> js_value" where
  "or_value v d = (if truthy v then v else d)"

definition nullish :: "js_value \<Rightarrow> js_value \<Rightarrow> js_value" where
  "nullish v d = (if v = JUndefined \<or> v = JNull then d else v)"

text \<open>
  \<open>o.key\<close> on a value that is neither \<open>null\<close> nor \<open>undefined\<close>: the entry of a plain
  object, \<open>undefined\<close> when there is none. (None of the keys the scripts read is a
  built-in property of a string, a number, a boolean or an array.)
\<close>

definition get :: "js_value \<Rightarrow> string \<Rightarrow> js_value" where
  "get v key =
     (case v of
        JObject kvs \<Rightarrow> (case map_of kvs key of Some x \<Rightarrow> x | None \<Rightarrow> JUndefined)
      | _ \<Rightarrow> JUndefined)"

subsection \<open>The schema combinators used by \<open>src/types/project.ts\<close>\<close>

text \<open>
  The combinators of the validation library, as it documents them: a schema accepts a
  value and returns its typed reading, or rejects it.
\<close>

definition z_string :: "js_value \<Rightarrow> string option" where
  "z_string v = (case v of JString s \<Rightarrow> Some s | _ \<Rightarrow> None)"

definition z_number :: "js_value \<Rightarrow> js_number option" where
  "z_number v = (case v of JNumber n \<Rightarrow> (if n = NaN then None else Some n) | _ \<Rightarrow> None)"

definition z_optional :: "(js_value \<Rightarrow> 'a option) \<Rightarrow> js_value \<Rightarrow> 'a option option" where
  "z_optional p v = (if v = JUndefined then Some None else map_option Some (p v))"

definition z_default :: "(js_value \<Rightarrow> 'a option) \<Rightarrow> 'a \<Rightarrow> js_value \<Rightarrow> 'a option" where
  "z_default p d v = (if v = JUndefined then Some d else p v)"

definition z_array :: "(js_value \<Rightarrow> 'a option) \<Rightarrow> js_value \<Rightarrow> 'a list option" where
  "z_array p v = (case v of JArray xs \<Rightarrow> those (map p xs) | _ \<Rightarrow> None)"

definition z_record :: "(js_value \<Rightarrow> 'a option) \<Rightarrow> js_value \<Rightarrow> (string \<times> 'a) list option" where
  "z_record p v =
     (case v of
        JObject kvs \<Rightarrow> those (map (\<lambda>(k, x). map_option (Pair k) (p x)) kvs)
      | _ \<Rightarrow> None)"

definition z_metric :: "js_value \<Rightarrow> metric option" where
  "z_metric v =
     (case z_number v of
        Some n \<Rightarrow> Some (MetricNumber n)
      | None \<Rightarrow> map_option MetricString (z_string v))"

text \<open>The three enumerations.\<close>

definition Status_of :: "string \<Rightarrow> Status option" where
  "Status_of s =
     (if s = ''complete'' then Some Complete
      else if s = ''in-progress'' then Some InProgress
      else if s = ''archived'' then Some Archived
      else None)"

definition Tier_of :: "string \<Rightarrow> Tier option" where
  "Tier_of s =
     (if s = ''flagship'' then Some Flagship
      else if s = ''mvp'' then Some Mvp
      else if s = ''experiment'' then Some Experiment
      else None)"

definition Visibility_of :: "string \<Rightarrow> Visibility option" where
  "Visibility_of s =
     (if s = ''featured'' then Some Featured
      else if s = ''portfolio'' then Some Portfolio
      else if s = ''labs'' then Some Labs
      else if s = ''ventures'' then Some Ventures
      else None)"

definition Source_of :: "string \<Rightarrow> Source option" where
  "Source_of s =
     (if s = ''github'' then Some Github
      else if s = ''manual'' then Some Manual
      else None)"

definition z_enum :: "(string \<Rightarrow> 'a option) \<Rightarrow> js_value \<Rightarrow> 'a option" where
  "z_enum of_string v = (case v of JString s \<Rightarrow> of_string s | _ \<Rightarrow> None)"

text \<open>
  \<open>z.object({...})\<close> accepts a plain object, reads each declared key (an absent key
  reads as \<open>undefined\<close>) and drops the others.
\<close>

definition is_object :: "js_value \<Rightarrow> bool" where
  "is_object v = (case v of JObject kvs \<Rightarrow> True | _ \<Rightarrow> False)"

definition ProjectManifestSchema :: "js_value \<Rightarrow> ProjectManifest option" where
  "ProjectManifestSchema v =
     (if \<not> is_object v then None
      else do {
        f_title \<leftarrow> z_optional z_string (get v ''title'');
        f_status \<leftarrow> z_optional (z_enum Status_of) (get v ''status'');
        f_tier \<leftarrow> z_optional (z_enum Tier_of) (get v ''tier'');
        f_stack \<leftarrow> z_optional (z_array z_string) (get v ''stack'');
        f_roles \<leftarrow> z_optional (z_array z_string) (get v ''roles'');
        f_live_url \<leftarrow> z_optional z_string (get v ''live_url'');
        f_demo_url \<leftarrow> z_optional z_string (get v ''demo_url'');
        f_repo_url \<leftarrow> z_optional z_string (get v ''repo_url'');
        f_homepage_url \<leftarrow> z_optional z_string (get v ''homepage_url'');
        f_highlights \<leftarrow> z_optional (z_array z_string) (get v ''highlights'');
        f_metrics \<leftarrow> z_optional (z_record z_metric) (get v ''metrics'');
        f_topics \<leftarrow> z_optional (z_array z_string) (get v ''topics'');
        f_visibility \<leftarrow> z_optional (z_enum Visibility_of) (get v ''visibility'');
        Some \<lparr>m_title = f_title, m_status = f_status, m_tier = f_tier,
          m_stack = f_stack, m_roles = f_roles, m_live_url = f_live_url,
          m_demo_url = f_demo_url, m_repo_url = f_repo_url,
          m_homepage_url = f_homepage_url, m_highlights = f_highlights,
          m_metrics = f_metrics, m_topics = f_topics, m_visibility = f_visibility\<rparr>
      })"

definition ProjectSchema :: "js_value \<Rightarrow> Project option" where
  "ProjectSchema v =
     (if \<not> is_object v then None
      else do {
        f_slug \<leftarrow> z_string (get v ''slug'');
        f_title \<leftarrow> z_string (get v ''title'');
        f_description \<leftarrow> z_optional z_string (get v ''description'');
        f_source \<leftarrow> z_default (z_enum Source_of) Github (get v ''source'');
        f_status \<leftarrow> z_enum Status_of (get v ''status'');
        f_tier \<leftarrow> z_enum Tier_of (get v ''tier'');
        f_topics \<leftarrow> z_array z_string (get v ''topics'');
        f_domains \<leftarrow> z_array z_string (get v ''domains'');
        f_stack \<leftarrow> z_array z_string (get v ''stack'');
        f_roles \<leftarrow> z_array z_string (get v ''roles'');
        f_repoUrl \<leftarrow> z_optional z_string (get v ''repoUrl'');
        f_homepageUrl \<leftarrow> z_optional z_string (get v ''homepageUrl'');
        f_liveUrl \<leftarrow> z_optional z_string (get v ''liveUrl'');
        f_demoUrl \<leftarrow> z_optional z_string (get v ''demoUrl'');
        f_stars \<leftarrow> z_number (get v ''stars'');
        f_pushedAt \<leftarrow> z_string (get v ''pushedAt'');
        f_ogImage \<leftarrow> z_optional z_string (get v ''ogImage'');
        f_highlights \<leftarrow> z_optional (z_array z_string) (get v ''highlights'');
        f_metrics \<leftarrow> z_optional (z_record z_metric) (get v ''metrics'');
        f_manifest \<leftarrow> z_optional ProjectManifestSchema (get v ''manifest'');
        f_visibility \<leftarrow> z_default (z_enum Visibility_of) Portfolio (get v ''visibility'');
        Some \<lparr>slug = f_slug, title = f_title, description = f_description,
          source = f_source, status = f_status, tier = f_tier, topics = f_topics,
          domains = f_domains, stack = f_stack, roles = f_roles, repoUrl = f_repoUrl,
          homepageUrl = f_homepageUrl, liveUrl = f_liveUrl, demoUrl = f_demoUrl,
          stars = f_stars, pushedAt = f_pushedAt, ogImage = f_ogImage,
          highlights = f_highlights, metrics = f_metrics, manifest = f_manifest,
          visibility = f_visibility\<rparr>
      })"

text \<open>\<open>schema.parse(v)\<close> throws where the schema rejects.\<close>

definition parse :: "(js_value \<Rightarrow> 'a option) \<Rightarrow> js_value \<Rightarrow> exn + 'a" where
  "parse schema v = (case schema v of None \<Rightarrow> Inl ZodError | Some x \<Rightarrow> Inr x)"

section \<open>Manifest parsing and remote normalisation (\<open>scripts/normalize.ts\<close>)\<close>

text \<open>
  \<open>parseManifest\<close>. The parameter \<open>load\<close> stands for \<open>yaml.load\<close> of the library,
  which returns a value or throws. The \<open>try\<close> block is a computation that may end in
  \<open>Inl\<close>; the \<open>catch\<close> clause logs and returns \<open>null\<close>.
\<close>

definition try_catch :: "exn + 'a \<Rightarrow> (exn \<Rightarrow> exn + 'a) \<Rightarrow> exn + 'a" where
  "try_catch body handler = (case body of Inl e \<Rightarrow> handler e | Inr x \<Rightarrow> Inr x)"

definition parseManifest ::
  "(string \<Rightarrow> exn + js_value) \<Rightarrow> string option \<Rightarrow> exn + ProjectManifest option" where
  "parseManifest load manifestText =
     (case manifestText of
        None \<Rightarrow> Inr None
      | Some text \<Rightarrow>
          if text = [] then Inr None
          else
            try_catch
              (case load text of
                 Inl e \<Rightarrow> Inl e
               | Inr parsed \<Rightarrow>
                  (case parse ProjectManifestSchema parsed of
                     Inl e \<Rightarrow> Inl e
                   | Inr m \<Rightarrow> Inr (Some m)))
              (\<lambda>error. Inr None))"

text \<open>\<open>s || undefined\<close> and \<open>s || null\<close> on an optional string: the empty string is falsy.\<close>

definition or_undefined :: "string option \<Rightarrow> string option" where
  "or_undefined s = (case s of None \<Rightarrow> None | Some t \<Rightarrow> (if t = [] then None else Some t))"

text \<open>\<open>xs || d\<close> on an optional array or record: every array and object is truthy.\<close>

definition or_else :: "'a option \<Rightarrow> 'a \<Rightarrow> 'a" where
  "or_else x d = (case x of None \<Rightarrow> d | Some y \<Rightarrow> y)"

definition normalizeProject ::
  "(string \<Rightarrow> exn + js_value) \<Rightarrow> GitHubRepository \<Rightarrow> exn + Project" where
  "normalizeProject load repo =
     (case parseManifest load (or_undefined (object_text repo)) of
        Inl e \<Rightarrow> Inl e
      | Inr m \<Rightarrow>
         (let githubTopics = repositoryTopics repo;
              manifestTopics = or_else (field m_topics m) [];
              allTopics = new_Set (githubTopics @ manifestTopics);
              domains' = extractDomainsFromTopics allTopics;
              status' = deriveStatus m allTopics;
              tier' = deriveTier m;
              visibility' = deriveVisibility m allTopics
          in Inr \<lparr>
               slug = name repo,
               title = or_else (or_undefined (field m_title m)) (name repo),
               description = or_undefined (r_description repo),
               source = Github,
               status = status',
               tier = tier',
               topics = allTopics,
               domains = domains',
               stack = or_else (field m_stack m) [],
               roles = or_else (field m_roles m) [],
               repoUrl = Some (url repo),
               homepageUrl =
                 (case or_undefined (r_homepageUrl repo) of
                    Some h \<Rightarrow> Some h
                  | None \<Rightarrow> or_undefined (field m_homepage_url m)),
               liveUrl = or_undefined (field m_live_url m),
               demoUrl = or_undefined (field m_demo_url m),
               stars = stargazerCount repo,
               pushedAt = r_pushedAt repo,
               ogImage = or_undefined (openGraphImageUrl repo),
               highlights = field m_highlights m,
               metrics = field m_metrics m,
               manifest = None,
               visibility = visibility'\<rparr>))"

section \<open>Loading the manual records (\<open>scripts/load-manual.ts\<close>)\<close>

text \<open>
  \<open>parse(file).name\<close> of the platform's path module, on the names that pass the
  extension filter: the name without its extension; a name that is nothing but the
  extension has no extension.
\<close>

definition filenameSlug :: "string \<Rightarrow> string" where
  "filenameSlug file =
     (if endsWith file ''.yml'' \<and> 4 < length file then take (length file - 4) file
      else if endsWith file ''.yaml'' \<and> 5 < length file then take (length file - 5) file
      else file)"

text \<open>
  \<open>extractDomainsFromTopics(topics)\<close> on an untyped value: \<open>topics.filter\<close> exists on
  arrays, and its callback calls \<open>topic.startsWith\<close>, which exists on strings. Every other
  value ends in the handler of the file.
\<close>

definition string_array :: "js_value \<Rightarrow> exn + string list" where
  "string_array v =
     (case v of
        JArray xs \<Rightarrow> (case those (map z_string xs) of Some ts \<Rightarrow> Inr ts | None \<Rightarrow> Inl TypeError)
      | _ \<Rightarrow> Inl TypeError)"

record LoadManualStats =
  totalFiles :: nat
  validFiles :: nat
  invalidFiles :: nat
  included :: nat
  skipped :: nat
  errors :: "(string \<times> exn) list"

text \<open>The three branches of the inclusion rules.\<close>

datatype decision = Included Project | SkippedHide | SkippedNotIncluded

text \<open>
  The body of the inner \<open>try\<close> for one file: \<open>fileContent\<close> is what \<open>readFileSync\<close>
  gives, \<open>now\<close> is \<open>new Date().toISOString()\<close> at that moment.
\<close>

definition loadFile ::
  "(string \<Rightarrow> exn + js_value) \<Rightarrow> string \<Rightarrow> string \<Rightarrow> exn + string \<Rightarrow> exn + decision" where
  "loadFile load now file fileContent =
     (case fileContent of
        Inl e \<Rightarrow> Inl e
      | Inr text \<Rightarrow>
     (case load text of
        Inl e \<Rightarrow> Inl e
      | Inr parsed \<Rightarrow>
     if parsed = JUndefined \<or> parsed = JNull then Inl TypeError
     else
       (let slug' = or_value (get parsed ''slug'') (JString (filenameSlug file)) in
        if \<not> truthy (get parsed ''title'') then Inl MissingTitle
        else if get parsed ''source'' \<noteq> JString ''manual'' then Inl SourceNotManual
        else
          (let include = nullish (get parsed ''include'') (JBoolean True);
               visibility' = or_value (get parsed ''visibility'') (JString ''ventures'');
               status' = or_value (get parsed ''status'') (JString ''in-progress'');
               tier' = or_value (get parsed ''tier'') (JString ''mvp'');
               topics' = or_value (get parsed ''topics'') (JArray [JString ''portfolio:include''])
           in
           case string_array topics' of
             Inl e \<Rightarrow> Inl e
           | Inr ts \<Rightarrow>
              (let domains' = extractDomainsFromTopics ts;
                   project = JObject [
                     (''slug'', slug'),
                     (''title'', get parsed ''title''),
                     (''description'', get parsed ''description''),
                     (''source'', JString ''manual''),
                     (''status'', status'),
                     (''tier'', tier'),
                     (''topics'', topics'),
                     (''domains'', JArray (map JString domains')),
                     (''stack'', or_value (get parsed ''stack'') (JArray [])),
                     (''roles'', or_value (get parsed ''roles'') (JArray [])),
                     (''repoUrl'', or_value (get parsed ''repo_url'') JUndefined),
                     (''homepageUrl'', or_value (get parsed ''homepage_url'') JUndefined),
                     (''liveUrl'', or_value (get parsed ''live_url'') JUndefined),
                     (''demoUrl'', or_value (get parsed ''demo_url'') JUndefined),
                     (''stars'', JNumber (Finite 0)),
                     (''pushedAt'', JString now),
                     (''ogImage'', JUndefined),
                     (''highlights'', get parsed ''highlights''),
                     (''metrics'', get parsed ''metrics''),
                     (''visibility'', visibility'),
                     (''manifest'', JObject [
                        (''title'', get parsed ''title''),
                        (''status'', get parsed ''status''),
                        (''tier'', get parsed ''tier''),
                        (''stack'', get parsed ''stack''),
                        (''roles'', get parsed ''roles''),
                        (''live_url'', get parsed ''live_url''),
                        (''demo_url'', get parsed ''demo_url''),
                        (''repo_url'', get parsed ''repo_url''),
                        (''homepage_url'', get parsed ''homepage_url''),
                        (''highlights'', get parsed ''highlights''),
                        (''metrics'', get parsed ''metrics''),
                        (''topics'', get parsed ''topics''),
                        (''visibility'', get parsed ''visibility'')])]
               in
               case parse ProjectSchema project of
                 Inl e \<Rightarrow> Inl e
               | Inr validatedProject \<Rightarrow>
                  (let shouldInclude = (truthy include \<and> ''portfolio:include'' \<in> set ts);
                       shouldExclude = (''portfolio:hide'' \<in> set ts)
                   in
                   if shouldExclude then Inr SkippedHide
                   else if shouldInclude then Inr (Included validatedProject)
                   else Inr SkippedNotIncluded))))))"

text \<open>One turn of the loop over the files: the inner \<open>try\<close> and its \<open>catch\<close>.\<close>

definition processFile ::
  "(string \<Rightarrow> exn + js_value) \<Rightarrow> (string \<Rightarrow> string) \<Rightarrow> string \<times> (exn + string) \<Rightarrow>
   Project list \<times> LoadManualStats \<Rightarrow> Project list \<times> LoadManualStats" where
  "processFile load now entry acc =
     (case (entry, acc) of ((file, fileContent), (projects, stats)) \<Rightarrow>
        (case loadFile load (now file) file fileContent of
           Inl e \<Rightarrow>
             (projects,
              stats\<lparr>invalidFiles := invalidFiles stats + 1,
                    errors := errors stats @ [(file, e)]\<rparr>)
         | Inr SkippedHide \<Rightarrow>
             (projects,
              stats\<lparr>skipped := skipped stats + 1, validFiles := validFiles stats + 1\<rparr>)
         | Inr (Included validatedProject) \<Rightarrow>
             (projects @ [validatedProject],
              stats\<lparr>included := included stats + 1, validFiles := validFiles stats + 1\<rparr>)
         | Inr SkippedNotIncluded \<Rightarrow>
             (projects,
              stats\<lparr>skipped := skipped stats + 1, validFiles := validFiles stats + 1\<rparr>)))"

definition emptyStats :: LoadManualStats where
  "emptyStats = \<lparr>totalFiles = 0, validFiles = 0, invalidFiles = 0, included = 0,
     skipped = 0, errors = []\<rparr>"

text \<open>
  \<open>loadManualProjects\<close>. \<open>dir\<close> is what \<open>readdirSync\<close> gives (the names, each with the
  result of reading it), or the exception it throws, which the outer \<open>catch\<close> turns into
  the empty result. \<open>now file\<close> is the clock while \<open>file\<close> is processed.
\<close>

definition loadManualProjects ::
  "(string \<Rightarrow> exn + js_value) \<Rightarrow> (string \<Rightarrow> string) \<Rightarrow>
   exn + (string \<times> (exn + string)) list \<Rightarrow> Project list \<times> LoadManualStats" where
  "loadManualProjects load now dir =
     (case dir of
        Inl e \<Rightarrow> ([], emptyStats)
      | Inr entries \<Rightarrow>
         (let files = filter (\<lambda>(file, fileContent).
                        endsWith file ''.yml'' \<or> endsWith file ''.yaml'') entries
          in fold (processFile load now) files
               ([], emptyStats\<lparr>totalFiles := length files\<rparr>)))"

section \<open>The build (\<open>scripts/build-projects.ts\<close>, \<open>scripts/github.ts\<close>)\<close>

text \<open>
  \<open>fetchAllRepositories\<close>, given the pages the host returned: forks and archived
  repositories are dropped page by page.
\<close>

definition fetchAllRepositories :: "GitHubRepository list list \<Rightarrow> GitHubRepository list" where
  "fetchAllRepositories pages =
     concat (map (filter (\<lambda>repo. \<not> isFork repo \<and> \<not> isArchived repo)) pages)"

text \<open>
  \<open>toLowerCase\<close> and \<open>trim\<close> on ASCII. (A letter outside ASCII is left as it is; none
  lower-cases into one of the names looked up below.)
\<close>

definition toLowerCase :: "string \<Rightarrow> string" where
  "toLowerCase s =
     map (\<lambda>c. let n = (of_char c :: nat) in
               if 65 \<le> n \<and> n \<le> 90 then char_of (n + 32) else c) s"

definition is_space :: "char \<Rightarrow> bool" where
  "is_space c = (let n = (of_char c :: nat) in n = 32 \<or> (9 \<le> n \<and> n \<le> 13))"

definition trim :: "string \<Rightarrow> string" where
  "trim s = rev (dropWhile is_space (rev (dropWhile is_space s)))"

definition Status_string :: "Status \<Rightarrow> string" where
  "Status_string s =
     (case s of Complete \<Rightarrow> ''complete'' | InProgress \<Rightarrow> ''in-progress''
      | Archived \<Rightarrow> ''archived'')"

definition Tier_string :: "Tier \<Rightarrow> string" where
  "Tier_string t =
     (case t of Flagship \<Rightarrow> ''flagship'' | Mvp \<Rightarrow> ''mvp'' | Experiment \<Rightarrow> ''experiment'')"

definition Visibility_string :: "Visibility \<Rightarrow> string" where
  "Visibility_string v =
     (case v of Featured \<Rightarrow> ''featured'' | Portfolio \<Rightarrow> ''portfolio'' | Labs \<Rightarrow> ''labs''
      | Ventures \<Rightarrow> ''ventures'')"

definition validateStatus :: "string \<Rightarrow> Status" where
  "validateStatus s =
     (let normalized = trim (toLowerCase s) in
      case Status_of normalized of Some v \<Rightarrow> v | None \<Rightarrow> InProgress)"

definition validateTier :: "string \<Rightarrow> Tier" where
  "validateTier s =
     (let normalized = trim (toLowerCase s) in
      case Tier_of normalized of Some v \<Rightarrow> v | None \<Rightarrow> Experiment)"

definition validateVisibility :: "string \<Rightarrow> Visibility" where
  "validateVisibility s =
     (let normalized = trim (toLowerCase s) in
      case Visibility_of normalized of Some v \<Rightarrow> v | None \<Rightarrow> Portfolio)"

text \<open>\<open>validateManifestKeys\<close>: \<open>repo_url\<close> is not among the allowed keys.\<close>

definition validateManifestKeys :: "ProjectManifest \<Rightarrow> ProjectManifest" where
  "validateManifestKeys m = m\<lparr>m_repo_url := None\<rparr>"

text \<open>The body of the \<open>try\<close> for one repository.\<close>

definition processRepository ::
  "(string \<Rightarrow> exn + js_value) \<Rightarrow> GitHubRepository \<Rightarrow> exn + Project" where
  "processRepository load repo =
     (case normalizeProject load repo of
        Inl e \<Rightarrow> Inl e
      | Inr project \<Rightarrow>
          Inr (project\<lparr>
            status := validateStatus (Status_string (status project)),
            tier := validateTier (Tier_string (tier project)),
            visibility := validateVisibility (Visibility_string (visibility project)),
            manifest := map_option validateManifestKeys (manifest project)\<rparr>))"

definition githubProjects ::
  "(string \<Rightarrow> exn + js_value) \<Rightarrow> GitHubRepository list \<Rightarrow> Project list" where
  "githubProjects load repositories =
     concat (map (\<lambda>repo. case processRepository load repo of
                           Inl e \<Rightarrow> []
                         | Inr project \<Rightarrow> [project]) repositories)"

text \<open>
  \<open>main\<close>: the collection written to \<open>projects.json\<close>. \<open>fetched\<close> is the outcome of
  the connection test and the paged fetch: the pages, or the exception that ends the
  run.
\<close>

definition main ::
  "(string \<Rightarrow> exn + js_value) \<Rightarrow> (string \<Rightarrow> int option) \<Rightarrow> (string \<Rightarrow> string) \<Rightarrow>
   exn + GitHubRepository list list \<Rightarrow> exn + (string \<times> (exn + string)) list \<Rightarrow>
   exn + Project list" where
  "main load getTime now fetched dir =
     (case fetched of
        Inl e \<Rightarrow> Inl e
      | Inr pages \<Rightarrow>
         (let repositories = fetchAllRepositories pages;
              manualProjects = fst (loadManualProjects load now dir);
              allProjects = githubProjects load repositories @ manualProjects
          in Inr (sortProjects getTime allProjects)))"

section \<open>Example inputs\<close>

text \<open>
  Two timestamps as the platform reads them, and projects that differ in the ranking
  keys.
\<close>

definition example_getTime :: "string \<Rightarrow> int option" where
  "example_getTime s =
     (if s = ''2024-01-01T00:00:00.000Z'' then Some 1704067200000
      else if s = ''2024-06-01T00:00:00.000Z'' then Some 1717200000000
      else None)"

definition example_project :: "string \<Rightarrow> Tier \<Rightarrow> Status \<Rightarrow> string \<Rightarrow> Project" where
  "example_project s t st ts =
     \<lparr>slug = s, title = s, description = None, source = Github, status = st, tier = t,
      topics = [], domains = [], stack = [], roles = [], repoUrl = None,
      homepageUrl = None, liveUrl = None, demoUrl = None, stars = Finite 0,
      pushedAt = ts, ogImage = None, highlights = None, metrics = None,
      manifest = None, visibility = Portfolio\<rparr>"

definition example_projects :: "Project list" where
  "example_projects =
     [example_project ''a'' Experiment Complete ''2024-06-01T00:00:00.000Z'',
      example_project ''b'' Flagship Archived ''2024-01-01T00:00:00.000Z'',
      example_project ''c'' Flagship Archived ''2024-06-01T00:00:00.000Z'',
      example_project ''d'' Flagship InProgress ''2024-01-01T00:00:00.000Z'']"

text \<open>
  \<open>yaml.load\<close> on the texts the examples use, and a repository as the host returns
  it.
\<close>

definition example_load :: "string \<Rightarrow> exn + js_value" where
  "example_load text =
     (if text = ''{title: Dup, source: manual}'' then
        Inr (JObject [(''title'', JString ''Dup''), (''source'', JString ''manual'')])
      else if text = ''{title: Saas, source: manual, topics: [domain:saas, domain:saas, portfolio:include]}'' then
        Inr (JObject [(''title'', JString ''Saas''), (''source'', JString ''manual''),
          (''topics'', JArray [JString ''domain:saas'', JString ''domain:saas'',
             JString ''portfolio:include''])])
      else if text = ''{title: Quiet, source: manual, include: true, topics: [health]}'' then
        Inr (JObject [(''title'', JString ''Quiet''), (''source'', JString ''manual''),
          (''include'', JBoolean True), (''topics'', JArray [JString ''health''])])
      else if text = ''{repo_url: https://example.org/elsewhere, status: complete}'' then
        Inr (JObject [(''repo_url'', JString ''https://example.org/elsewhere''),
          (''status'', JString ''complete'')])
      else if text = ''{status: done}'' then
        Inr (JObject [(''status'', JString ''done'')])
      else if text = ''{title: Off, source: manual, include: false, topics: [portfolio:include]}'' then
        Inr (JObject [(''title'', JString ''Off''), (''source'', JString ''manual''),
          (''include'', JBoolean False), (''topics'', JArray [JString ''portfolio:include''])])
      else if text = ''{topics: [domain:ai, domain:saas]}'' then
        Inr (JObject [(''topics'', JArray [JString ''domain:ai'', JString ''domain:saas''])])
      else Inl YAMLException)"

definition example_repository :: "string \<Rightarrow> string list \<Rightarrow> string option \<Rightarrow> GitHubRepository" where
  "example_repository n ts text =
     \<lparr>name = n, r_description = None, stargazerCount = Finite 3,
      r_pushedAt = ''2024-01-01T00:00:00.000Z'', isArchived = False, isFork = False,
      r_homepageUrl = None, openGraphImageUrl = None,
      url = ''https://github.com/jjwprotozoa/'' @ n,
      repositoryTopics = ts, object_text = text\<rparr>"

text \<open>
  The clock of the examples, and the project that a manual record with a title and
  topics, and nothing else, loads as.
\<close>

definition example_now :: "string \<Rightarrow> string" where
  "example_now file = ''2024-06-01T00:00:00.000Z''"

definition example_manual :: "string \<Rightarrow> string \<Rightarrow> string list \<Rightarrow> string list option \<Rightarrow> Project" where
  "example_manual s t ts mts =
     \<lparr>slug = s, title = t, description = None, source = Manual, status = InProgress,
      tier = Mvp, topics = ts, domains = extractDomainsFromTopics ts, stack = [], roles = [],
      repoUrl = None, homepageUrl = None, liveUrl = None, demoUrl = None, stars = Finite 0,
      pushedAt = ''2024-06-01T00:00:00.000Z'', ogImage = None, highlights = None,
      metrics = None,
      manifest = Some \<lparr>m_title = Some t, m_status = None, m_tier = None, m_stack = None,
        m_roles = None, m_live_url = None, m_demo_url = None, m_repo_url = None,
        m_homepage_url = None, m_highlights = None, m_metrics = None, m_topics = mts,
        m_visibility = None\<rparr>,
      visibility = Ventures\<rparr>"

text \<open>What the build makes of \<open>example_repository n [] None\<close>.\<close>

definition example_remote :: "string \<Rightarrow> Project" where
  "example_remote n =
     \<lparr>slug = n, title = n, description = None, source = Github,
      status = InProgress, tier = Experiment, topics = [], domains = [], stack = [],
      roles = [], repoUrl = Some (''https://github.com/jjwprotozoa/'' @ n),
      homepageUrl = None, liveUrl = None, demoUrl = None, stars = Finite 3,
      pushedAt = ''2024-01-01T00:00:00.000Z'', ogImage = None, highlights = None,
      metrics = None, manifest = None, visibility = Portfolio\<rparr>"

section \<open>Facts about strings\<close>

lemma startsWith_iff: "startsWith s p \<longleftrightarrow> take (length p) s = p"
  by (induction s p rule: startsWith.induct) auto

lemma replace_startsWith: "startsWith s p \<Longrightarrow> replace s p rep = rep @ drop (length p) s"
  by (cases s) (auto simp: startsWith_iff)

lemma domain_not_portfolio: "startsWith t ''domain:'' \<Longrightarrow> \<not> startsWith t ''portfolio:''"
  by (cases t) auto

lemma strip_prefix_eq:
  assumes "startsWith t p"
  shows "replace t p [] = v \<longleftrightarrow> t = p @ v"
proof -
  have tk: "take (length p) t = p" using assms by (simp add: startsWith_iff)
  have "replace t p [] = drop (length p) t" using assms by (simp add: replace_startsWith)
  moreover have "drop (length p) t = v \<longleftrightarrow> t = p @ v"
  proof
    assume "drop (length p) t = v"
    then have "take (length p) t @ drop (length p) t = p @ v" using tk by simp
    then show "t = p @ v" by simp
  next
    assume "t = p @ v"
    then show "drop (length p) t = v" by simp
  qed
  ultimately show ?thesis by simp
qed

lemma filter_hd_find:
  "(case filter P xs of [] \<Rightarrow> a | t # _ \<Rightarrow> f t) = (case find P xs of None \<Rightarrow> a | Some t \<Rightarrow> f t)"
  by (induction xs) auto

lemma find_SomeD: "find P xs = Some t \<Longrightarrow> P t"
  by (induction xs) (auto split: if_splits)

section \<open>The derived status\<close>

text \<open>
  C2, as the code has it. The status is \<open>manifest.status\<close> when the manifest declares
  one. Otherwise only the first tag that carries the prefix \<open>portfolio:\<close> is consulted:
  the status is \<open>complete\<close> or \<open>archived\<close> when that tag is \<open>portfolio:complete\<close> or
  \<open>portfolio:archived\<close>, and \<open>in-progress\<close> in every other case, also when there is no
  such tag.
\<close>

theorem deriveStatus_first_namespace_tag:
  "deriveStatus m ts =
     (case field m_status m of
        Some s \<Rightarrow> s
      | None \<Rightarrow>
         (case find (\<lambda>t. startsWith t ''portfolio:'') ts of
            None \<Rightarrow> InProgress
          | Some t \<Rightarrow>
              if t = ''portfolio:complete'' then Complete
              else if t = ''portfolio:archived'' then Archived
              else InProgress))"
proof (cases "field m_status m")
  case None
  show ?thesis
  proof (cases "find (\<lambda>t. startsWith t ''portfolio:'') ts")
    case N: None
    then show ?thesis using None
      by (simp add: deriveStatus_def Let_def filter_hd_find)
  next
    case (Some t)
    then have p: "startsWith t ''portfolio:''" by (rule find_SomeD)
    have c: "replace t ''portfolio:'' [] = ''complete'' \<longleftrightarrow> t = ''portfolio:complete''"
      using strip_prefix_eq[OF p, of "''complete''"] by simp
    have a: "replace t ''portfolio:'' [] = ''archived'' \<longleftrightarrow> t = ''portfolio:archived''"
      using strip_prefix_eq[OF p, of "''archived''"] by simp
    show ?thesis using None Some
      by (simp only: deriveStatus_def Let_def filter_hd_find option.case c a)
  qed
next
  case (Some s)
  then show ?thesis by (simp add: deriveStatus_def)
qed

theorem deriveStatus_first_namespace_tag_witness:
  "deriveStatus None [''react'', ''portfolio:archived'', ''portfolio:complete''] = Archived"
  using deriveStatus_first_namespace_tag [of None "[''react'', ''portfolio:archived'', ''portfolio:complete'']"]
  by (simp add: field_def)

text \<open>
  C2 as stated fails: the first tag that matches \<open>portfolio:{complete|archived}\<close> is
  \<open>portfolio:complete\<close>, but a tag of the same namespace precedes it and the status is
  the default.
\<close>

theorem deriveStatus_later_status_tag_counterexample:
  "deriveStatus None [''portfolio:featured'', ''portfolio:complete''] = InProgress
   \<and> deriveStatus None [''portfolio:featured'', ''portfolio:complete''] \<noteq> Complete"
  by (simp add: deriveStatus_def field_def)

section \<open>The sort\<close>

text \<open>Insertion keeps the elements and, for a total and transitive comparison, the order.\<close>

lemma mset_sort_insert: "mset (sort_insert c x ys) = add_mset x (mset ys)"
  by (induction ys) auto

lemma mset_Array_sort: "mset (Array_sort c xs) = mset xs"
  by (induction xs) (auto simp: mset_sort_insert)

lemma set_Array_sort: "set (Array_sort c xs) = set xs"
  using mset_Array_sort [of c xs] by (metis set_mset_mset)

lemma set_sort_insert: "set (sort_insert c x ys) = insert x (set ys)"
  using mset_sort_insert [of c x ys] by (metis set_mset_mset set_mset_add_mset_insert)

lemma sorted_wrt_sort_insert:
  assumes total: "\<And>a b. a \<in> A \<Longrightarrow> b \<in> A \<Longrightarrow> SortCompare c a b \<le> 0 \<or> SortCompare c b a \<le> 0"
    and trans: "\<And>a b d. a \<in> A \<Longrightarrow> b \<in> A \<Longrightarrow> d \<in> A \<Longrightarrow>
        SortCompare c a b \<le> 0 \<Longrightarrow> SortCompare c b d \<le> 0 \<Longrightarrow> SortCompare c a d \<le> 0"
    and "x \<in> A" and "set ys \<subseteq> A"
    and "sorted_wrt (\<lambda>a b. SortCompare c a b \<le> 0) ys"
  shows "sorted_wrt (\<lambda>a b. SortCompare c a b \<le> 0) (sort_insert c x ys)"
  using assms(3-)
proof (induction ys)
  case Nil
  then show ?case by simp
next
  case (Cons y ys)
  show ?case
  proof (cases "SortCompare c x y \<le> 0")
    case True
    have "\<forall>z \<in> set ys. SortCompare c x z \<le> 0"
    proof
      fix z assume z: "z \<in> set ys"
      then have "SortCompare c y z \<le> 0" using Cons.prems(3) by simp
      moreover have "z \<in> A" "y \<in> A" using z Cons.prems(2) by auto
      ultimately show "SortCompare c x z \<le> 0" using trans [of x y z] True Cons.prems(1) by blast
    qed
    then show ?thesis using True Cons.prems(3) by simp
  next
    case False
    have yx: "SortCompare c y x \<le> 0"
      using total [of x y] False Cons.prems(1,2) by auto
    have ih: "sorted_wrt (\<lambda>a b. SortCompare c a b \<le> 0) (sort_insert c x ys)"
      using Cons.IH Cons.prems by simp
    have "\<forall>z \<in> set (sort_insert c x ys). SortCompare c y z \<le> 0"
      using yx Cons.prems(3) by (simp add: set_sort_insert)
    then show ?thesis using False ih by simp
  qed
qed

lemma sorted_wrt_Array_sort:
  assumes total: "\<And>a b. a \<in> A \<Longrightarrow> b \<in> A \<Longrightarrow> SortCompare c a b \<le> 0 \<or> SortCompare c b a \<le> 0"
    and trans: "\<And>a b d. a \<in> A \<Longrightarrow> b \<in> A \<Longrightarrow> d \<in> A \<Longrightarrow>
        SortCompare c a b \<le> 0 \<Longrightarrow> SortCompare c b d \<le> 0 \<Longrightarrow> SortCompare c a d \<le> 0"
    and "set xs \<subseteq> A"
  shows "sorted_wrt (\<lambda>a b. SortCompare c a b \<le> 0) (Array_sort c xs)"
  using assms(3)
proof (induction xs)
  case Nil
  then show ?case by simp
next
  case (Cons x xs)
  have "sorted_wrt (\<lambda>a b. SortCompare c a b \<le> 0) (sort_insert c x (Array_sort c xs))"
  proof (rule sorted_wrt_sort_insert [where A = A])
    show "x \<in> A" using Cons.prems by simp
    show "set (Array_sort c xs) \<subseteq> A" using Cons.prems by (simp add: set_Array_sort)
    show "sorted_wrt (\<lambda>a b. SortCompare c a b \<le> 0) (Array_sort c xs)"
      using Cons.IH Cons.prems by simp
  qed (use total trans in blast)+
  then show ?case by simp
qed

lemma Array_sort_sorted_id:
  "sorted_wrt (\<lambda>a b. SortCompare c a b \<le> 0) xs \<Longrightarrow> Array_sort c xs = xs"
proof (induction xs)
  case Nil
  then show ?case by simp
next
  case (Cons x xs)
  then have "Array_sort c xs = xs" by simp
  moreover have "sort_insert c x xs = x # xs"
    using Cons.prems by (cases xs) auto
  ultimately show ?case by simp
qed

text \<open>The comparison on projects whose timestamps parse.\<close>

lemma tierOrder_range: "0 \<le> tierOrder t \<and> tierOrder t \<le> 2"
  by (cases t) (auto simp: tierOrder_def)

lemma precedes_iff:
  assumes "getTime (pushedAt a) = Some ta" and "getTime (pushedAt b) = Some tb"
  shows "precedes getTime a b \<longleftrightarrow>
     tierOrder (tier a) < tierOrder (tier b)
     \<or> (tierOrder (tier a) = tierOrder (tier b)
        \<and> (statusOrder (status a) < statusOrder (status b)
           \<or> (statusOrder (status a) = statusOrder (status b) \<and> tb \<le> ta)))"
  using assms by (auto simp: SortCompare_def compareProjects_def Let_def)

lemma precedes_total:
  assumes "getTime (pushedAt a) \<noteq> None" and "getTime (pushedAt b) \<noteq> None"
  shows "precedes getTime a b \<or> precedes getTime b a"
proof -
  obtain ta tb where t: "getTime (pushedAt a) = Some ta" "getTime (pushedAt b) = Some tb"
    using assms by auto
  show ?thesis
    unfolding precedes_iff [OF t] precedes_iff [OF t(2) t(1)] by auto
qed

lemma precedes_trans:
  assumes "getTime (pushedAt a) \<noteq> None" and "getTime (pushedAt b) \<noteq> None"
    and "getTime (pushedAt d) \<noteq> None"
    and "precedes getTime a b" and "precedes getTime b d"
  shows "precedes getTime a d"
proof -
  obtain ta tb td where t: "getTime (pushedAt a) = Some ta" "getTime (pushedAt b) = Some tb"
     "getTime (pushedAt d) = Some td"
    using assms by auto
  show ?thesis
    using assms(4,5)
    unfolding precedes_iff [OF t(1,2)] precedes_iff [OF t(2,3)] precedes_iff [OF t(1,3)] by auto
qed

lemma sortProjects_sorted_wrt:
  assumes "\<forall>p \<in> set ps. getTime (pushedAt p) \<noteq> None"
  shows "sorted_wrt (precedes getTime) (sortProjects getTime ps)"
  unfolding sortProjects_def
proof (rule sorted_wrt_Array_sort [where A = "{p::Project. getTime (pushedAt p) \<noteq> None}"])
  show "set ps \<subseteq> {p. getTime (pushedAt p) \<noteq> None}" using assms by auto
next
  fix a b :: Project assume "a \<in> {p. getTime (pushedAt p) \<noteq> None}" "b \<in> {p. getTime (pushedAt p) \<noteq> None}"
  then show "precedes getTime a b \<or> precedes getTime b a" using precedes_total by simp
next
  fix a b d :: Project
  assume "a \<in> {p. getTime (pushedAt p) \<noteq> None}" "b \<in> {p. getTime (pushedAt p) \<noteq> None}"
    "d \<in> {p. getTime (pushedAt p) \<noteq> None}" "precedes getTime a b" "precedes getTime b d"
  then show "precedes getTime a d" using precedes_trans [of getTime a b d] by simp
qed

lemma adjacent_Cons:
  "(\<forall>i. Suc i < length (x # xs) \<longrightarrow> P ((x # xs) ! i) ((x # xs) ! Suc i))
   \<longleftrightarrow> (xs = [] \<or> P x (hd xs)) \<and> (\<forall>i. Suc i < length xs \<longrightarrow> P (xs ! i) (xs ! Suc i))"
  using successively_conv_nth [of P "x # xs"] successively_conv_nth [of P xs]
  by (cases xs) auto

lemma Array_sort_adjacent_id:
  "\<forall>i. Suc i < length xs \<longrightarrow> SortCompare c (xs ! i) (xs ! Suc i) \<le> 0 \<Longrightarrow> Array_sort c xs = xs"
proof (induction xs)
  case Nil
  then show ?case by simp
next
  case (Cons x xs)
  from Cons.prems have h: "xs = [] \<or> SortCompare c x (hd xs) \<le> 0"
    and t: "\<forall>i. Suc i < length xs \<longrightarrow> SortCompare c (xs ! i) (xs ! Suc i) \<le> 0"
    unfolding adjacent_Cons [where P = "\<lambda>a b. SortCompare c a b \<le> 0"] by blast+
  have "Array_sort c xs = xs" using Cons.IH t by blast
  moreover have "sort_insert c x xs = x # xs" using h by (cases xs) auto
  ultimately show ?case by simp
qed

lemma sort_insert_insort_key:
  fixes f :: "'a \<Rightarrow> 'k::linorder"
  assumes "\<And>y. y \<in> set ys \<Longrightarrow> (SortCompare c x y \<le> 0 \<longleftrightarrow> f x \<le> f y)"
  shows "sort_insert c x ys = insort_key f x ys"
  using assms by (induction ys) auto

lemma Array_sort_sort_key:
  fixes f :: "'a \<Rightarrow> 'k::linorder"
  assumes "\<And>x y. x \<in> set xs \<Longrightarrow> y \<in> set xs \<Longrightarrow> (SortCompare c x y \<le> 0 \<longleftrightarrow> f x \<le> f y)"
  shows "Array_sort c xs = sort_key f xs"
  using assms
proof (induction xs)
  case Nil
  then show ?case by simp
next
  case (Cons x xs)
  have ih: "Array_sort c xs = sort_key f xs"
    using Cons.IH Cons.prems by simp
  have "sort_insert c x (sort_key f xs) = insort_key f x (sort_key f xs)"
    by (rule sort_insert_insort_key) (use Cons.prems in simp)
  then show ?case by (simp add: ih)
qed

lemma precedes_rank:
  assumes "getTime (pushedAt a) \<noteq> None" and "getTime (pushedAt b) \<noteq> None"
  shows "precedes getTime a b \<longleftrightarrow>
    (tierOrder (tier a), statusOrder (status a), - the (getTime (pushedAt a)))
    \<le> (tierOrder (tier b), statusOrder (status b), - the (getTime (pushedAt b)))"
proof -
  obtain ta tb where t: "getTime (pushedAt a) = Some ta" "getTime (pushedAt b) = Some tb"
    using assms by auto
  show ?thesis unfolding precedes_iff [OF t] by (auto simp: t)
qed

lemma sortProjects_sort_key:
  assumes "\<forall>p \<in> set ps. getTime (pushedAt p) \<noteq> None"
  shows "sortProjects getTime ps
    = sort_key (\<lambda>p. (tierOrder (tier p), statusOrder (status p), - the (getTime (pushedAt p)))) ps"
  unfolding sortProjects_def
  by (rule Array_sort_sort_key) (use assms precedes_rank in blast)

text \<open>
  Every stable sort agrees with \<open>sortProjects\<close> on projects whose timestamps parse:
  an arrangement of the input that is in order, and keeps the projects that compare
  as equal in their input order, is the one \<open>sortProjects\<close> returns.
\<close>

lemma sortProjects_stable_unique:
  assumes valid: "\<forall>p \<in> set ps. getTime (pushedAt p) \<noteq> None"
    and perm: "mset ys = mset ps"
    and ordered: "sorted_wrt (precedes getTime) ys"
    and stable: "\<And>p. p \<in> set ys \<Longrightarrow>
      filter (\<lambda>q. precedes getTime p q \<and> precedes getTime q p) ys
      = filter (\<lambda>q. precedes getTime p q \<and> precedes getTime q p) ps"
  shows "ys = sortProjects getTime ps"
proof -
  let ?f = "\<lambda>p. (tierOrder (tier p), statusOrder (status p), - the (getTime (pushedAt p)))"
  have sets: "set ys = set ps" using perm by (rule mset_eq_setD)
  have le: "precedes getTime a b \<longleftrightarrow> ?f a \<le> ?f b" if "a \<in> set ps" "b \<in> set ps" for a b
    using precedes_rank [of getTime a b] valid that by blast
  have eq: "?f a = ?f b \<longleftrightarrow> precedes getTime a b \<and> precedes getTime b a"
    if "a \<in> set ps" "b \<in> set ps" for a b
    using le [OF that] le [OF that(2,1)] by (metis order_antisym order_refl)
  have "sorted_wrt (\<lambda>a b. ?f a \<le> ?f b) ys"
    by (rule sorted_wrt_mono_rel [OF _ ordered]) (use le sets in blast)
  then have 3: "sorted (map ?f ys)" by (simp add: sorted_map)
  have 2: "filter (\<lambda>x. ?f k = ?f x) ys = filter (\<lambda>x. ?f k = ?f x) ps" if "k \<in> set ys" for k
  proof -
    have "filter (\<lambda>x. ?f k = ?f x) ys
        = filter (\<lambda>q. precedes getTime k q \<and> precedes getTime q k) ys"
      by (rule filter_cong [OF refl]) (use eq that sets in blast)
    also have "\<dots> = filter (\<lambda>q. precedes getTime k q \<and> precedes getTime q k) ps"
      by (rule stable [OF that])
    also have "\<dots> = filter (\<lambda>x. ?f k = ?f x) ps"
      by (rule filter_cong [OF refl]) (use eq that sets in blast)
    finally show ?thesis .
  qed
  have "sort_key ?f ps = ys"
    using perm 2 3 by (rule properties_for_sort_key)
  then show ?thesis using sortProjects_sort_key [OF valid] by simp
qed

lemma example_sorted:
  "sortProjects example_getTime example_projects =
     [example_project ''d'' Flagship InProgress ''2024-01-01T00:00:00.000Z'',
      example_project ''c'' Flagship Archived ''2024-06-01T00:00:00.000Z'',
      example_project ''b'' Flagship Archived ''2024-01-01T00:00:00.000Z'',
      example_project ''a'' Experiment Complete ''2024-06-01T00:00:00.000Z'']"
  by (simp add: sortProjects_def example_projects_def example_project_def example_getTime_def
      SortCompare_def compareProjects_def tierOrder_def statusOrder_def)

lemma example_times:
  "\<forall>p \<in> set example_projects. example_getTime (pushedAt p) \<noteq> None"
  by (simp add: example_projects_def example_project_def example_getTime_def)

text \<open>
  C3. On projects whose \<open>pushedAt\<close> is a timestamp the platform can read, every
  adjacent pair of the sorted output is in order under the comparison, and the output
  holds the same projects as the input. On such projects the comparison is the
  lexicographic one on tier (flagship, then mvp, then experiment), then status (complete,
  then in-progress, then archived), then \<open>pushedAt\<close> with the most recent first; it is
  total and transitive.
\<close>

theorem sortProjects_ordered:
  assumes "\<forall>p \<in> set ps. getTime (pushedAt p) \<noteq> None"
  shows "(\<forall>i. Suc i < length (sortProjects getTime ps) \<longrightarrow>
            precedes getTime (sortProjects getTime ps ! i) (sortProjects getTime ps ! Suc i))
       \<and> mset (sortProjects getTime ps) = mset ps
       \<and> (\<forall>a \<in> set ps. \<forall>b \<in> set ps. \<forall>ta tb.
            getTime (pushedAt a) = Some ta \<longrightarrow> getTime (pushedAt b) = Some tb \<longrightarrow>
            (precedes getTime a b \<longleftrightarrow>
               tierOrder (tier a) < tierOrder (tier b)
               \<or> (tierOrder (tier a) = tierOrder (tier b)
                  \<and> (statusOrder (status a) < statusOrder (status b)
                     \<or> (statusOrder (status a) = statusOrder (status b) \<and> tb \<le> ta)))))
       \<and> (\<forall>a \<in> set ps. \<forall>b \<in> set ps. precedes getTime a b \<or> precedes getTime b a)
       \<and> (\<forall>a \<in> set ps. \<forall>b \<in> set ps. \<forall>d \<in> set ps.
            precedes getTime a b \<longrightarrow> precedes getTime b d \<longrightarrow> precedes getTime a d)
       \<and> tierOrder Flagship < tierOrder Mvp \<and> tierOrder Mvp < tierOrder Experiment
       \<and> statusOrder Complete < statusOrder InProgress
       \<and> statusOrder InProgress < statusOrder Archived"
proof -
  have "successively (precedes getTime) (sortProjects getTime ps)"
    using sortProjects_sorted_wrt [OF assms] by (rule successively_if_sorted_wrt)
  then have 1: "\<forall>i. Suc i < length (sortProjects getTime ps) \<longrightarrow>
            precedes getTime (sortProjects getTime ps ! i) (sortProjects getTime ps ! Suc i)"
    by (simp add: successively_conv_nth)
  have 2: "mset (sortProjects getTime ps) = mset ps"
    by (simp add: sortProjects_def mset_Array_sort)
  have 3: "\<forall>a \<in> set ps. \<forall>b \<in> set ps. \<forall>ta tb.
            getTime (pushedAt a) = Some ta \<longrightarrow> getTime (pushedAt b) = Some tb \<longrightarrow>
            (precedes getTime a b \<longleftrightarrow>
               tierOrder (tier a) < tierOrder (tier b)
               \<or> (tierOrder (tier a) = tierOrder (tier b)
                  \<and> (statusOrder (status a) < statusOrder (status b)
                     \<or> (statusOrder (status a) = statusOrder (status b) \<and> tb \<le> ta))))"
    using precedes_iff by blast
  have 4: "\<forall>a \<in> set ps. \<forall>b \<in> set ps. precedes getTime a b \<or> precedes getTime b a"
    using assms precedes_total by blast
  have 5: "\<forall>a \<in> set ps. \<forall>b \<in> set ps. \<forall>d \<in> set ps.
            precedes getTime a b \<longrightarrow> precedes getTime b d \<longrightarrow> precedes getTime a d"
    using assms precedes_trans by blast
  have 6: "tierOrder Flagship < tierOrder Mvp \<and> tierOrder Mvp < tierOrder Experiment
       \<and> statusOrder Complete < statusOrder InProgress
       \<and> statusOrder InProgress < statusOrder Archived"
    by (simp add: tierOrder_def statusOrder_def)
  show ?thesis using 1 2 3 4 5 6 by blast
qed

theorem sortProjects_ordered_witness:
  "precedes example_getTime
     (sortProjects example_getTime example_projects ! 1)
     (sortProjects example_getTime example_projects ! Suc 1)
   \<and> slug (sortProjects example_getTime example_projects ! 1) = ''c''
   \<and> slug (sortProjects example_getTime example_projects ! Suc 1) = ''b''"
proof -
  have "Suc 1 < length (sortProjects example_getTime example_projects)"
    by (simp add: example_sorted)
  then have "precedes example_getTime
     (sortProjects example_getTime example_projects ! 1)
     (sortProjects example_getTime example_projects ! Suc 1)"
    using sortProjects_ordered [OF example_times] by blast
  then show ?thesis by (simp add: example_sorted example_project_def)
qed

text \<open>
  C4. On projects whose \<open>pushedAt\<close> is a timestamp the platform can read, sorting the
  sorted output again changes nothing, and a sequence whose adjacent pairs are already in
  order is returned as it is.
\<close>

theorem sortProjects_idempotent:
  assumes "\<forall>p \<in> set ps. getTime (pushedAt p) \<noteq> None"
  shows "sortProjects getTime (sortProjects getTime ps) = sortProjects getTime ps
       \<and> ((\<forall>i. Suc i < length ps \<longrightarrow> precedes getTime (ps ! i) (ps ! Suc i)) \<longrightarrow>
            sortProjects getTime ps = ps)"
proof -
  have "sorted_wrt (precedes getTime) (sortProjects getTime ps)"
    using assms by (rule sortProjects_sorted_wrt)
  then have "Array_sort (compareProjects getTime) (sortProjects getTime ps) = sortProjects getTime ps"
    by (rule Array_sort_sorted_id)
  then show ?thesis
    using Array_sort_adjacent_id [of ps "compareProjects getTime"]
    by (simp add: sortProjects_def)
qed

theorem sortProjects_idempotent_witness:
  "sortProjects example_getTime (sortProjects example_getTime example_projects)
     = sortProjects example_getTime example_projects
   \<and> map slug (sortProjects example_getTime example_projects) = [''d'', ''c'', ''b'', ''a'']"
  using sortProjects_idempotent [OF example_times]
  by (simp add: example_sorted example_project_def)

section \<open>Sets in insertion order\<close>

lemma filter_Set_add:
  "filter P (Set_add acc x) = (if P x then Set_add (filter P acc) x else filter P acc)"
  by (auto simp: Set_add_def)

lemma filter_foldl_Set_add:
  "filter P (foldl Set_add acc xs) = foldl Set_add (filter P acc) (filter P xs)"
  by (induction xs arbitrary: acc) (simp_all add: filter_Set_add)

lemma filter_new_Set: "filter P (new_Set xs) = new_Set (filter P xs)"
  by (simp add: new_Set_def filter_foldl_Set_add)

lemma set_foldl_Set_add: "set (foldl Set_add acc xs) = set acc \<union> set xs"
  by (induction xs arbitrary: acc) (auto simp: Set_add_def)

lemma distinct_foldl_Set_add: "distinct acc \<Longrightarrow> distinct (foldl Set_add acc xs)"
  by (induction xs arbitrary: acc) (auto simp: Set_add_def)

lemma set_new_Set: "set (new_Set xs) = set xs"
  by (simp add: new_Set_def set_foldl_Set_add)

lemma distinct_new_Set: "distinct (new_Set xs)"
  by (simp add: new_Set_def distinct_foldl_Set_add)

lemma new_Set_snoc: "new_Set (xs @ [x]) = Set_add (new_Set xs) x"
  by (simp add: new_Set_def)

lemma new_Set_first_occurrences: "new_Set xs = rev (remdups (rev xs))"
proof (induction xs rule: rev_induct)
  case Nil
  then show ?case by (simp add: new_Set_def)
next
  case (snoc x xs)
  then show ?case by (simp add: new_Set_snoc Set_add_def)
qed

lemma map_Set_add:
  "inj_on f (insert x (set acc)) \<Longrightarrow> map f (Set_add acc x) = Set_add (map f acc) (f x)"
  by (auto simp: Set_add_def inj_on_def)

lemma map_foldl_Set_add:
  "inj_on f (set acc \<union> set xs) \<Longrightarrow>
   map f (foldl Set_add acc xs) = foldl Set_add (map f acc) (map f xs)"
proof (induction xs arbitrary: acc)
  case Nil
  then show ?case by simp
next
  case (Cons x xs)
  have 1: "inj_on f (insert x (set acc))"
    using Cons.prems by (auto simp: inj_on_def)
  have 2: "inj_on f (set (Set_add acc x) \<union> set xs)"
    using Cons.prems by (auto simp: inj_on_def Set_add_def)
  show ?case
    using Cons.IH [OF 2] map_Set_add [OF 1] by simp
qed

lemma map_new_Set: "inj_on f (set xs) \<Longrightarrow> map f (new_Set xs) = new_Set (map f xs)"
  using map_foldl_Set_add [of f "[]" xs] by (simp add: new_Set_def)

lemma extractDomains_drop:
  "extractDomainsFromTopics ts =
     map (drop (length ''domain:'')) (filter (\<lambda>t. startsWith t ''domain:'') ts)"
  by (simp add: extractDomainsFromTopics_def replace_startsWith cong: map_cong)

lemma inj_on_strip_prefix: "inj_on (drop (length p)) {t. startsWith t p}"
proof (rule inj_onI)
  fix s t :: string
  assume "s \<in> {t. startsWith t p}" "t \<in> {t. startsWith t p}"
    and d: "drop (length p) s = drop (length p) t"
  then have "take (length p) s = take (length p) t" by (simp add: startsWith_iff)
  then have "take (length p) s @ drop (length p) s = take (length p) t @ drop (length p) t"
    using d by simp
  then show "s = t" by simp
qed

lemma extractDomains_new_Set:
  "extractDomainsFromTopics (new_Set ts) = new_Set (extractDomainsFromTopics ts)"
proof -
  have "inj_on (drop (length ''domain:'')) (set (filter (\<lambda>t. startsWith t ''domain:'') ts))"
    by (rule inj_on_subset [OF inj_on_strip_prefix]) auto
  then show ?thesis
    unfolding extractDomains_drop filter_new_Set by (rule map_new_Set)
qed

section \<open>Manifest parsing\<close>

lemma parseManifest_total: "\<exists>m. parseManifest load t = Inr m"
  by (auto simp: parseManifest_def try_catch_def split: option.splits sum.splits)

text \<open>
  C5. \<open>parseManifest\<close> never raises: for every input it returns a manifest or \<open>null\<close>.
  It returns \<open>null\<close> exactly when the input is absent or empty, \<open>yaml.load\<close> throws, or
  the schema rejects the loaded value; otherwise it returns the manifest the schema
  produces.
\<close>

theorem parseManifest_never_raises:
  "(\<exists>r. parseManifest load manifestText = Inr r)
   \<and> (parseManifest load manifestText = Inr None \<longleftrightarrow>
        manifestText = None \<or> manifestText = Some []
        \<or> (\<exists>text e. manifestText = Some text \<and> load text = Inl e)
        \<or> (\<exists>text parsed. manifestText = Some text \<and> load text = Inr parsed
              \<and> ProjectManifestSchema parsed = None))
   \<and> (\<forall>m. parseManifest load manifestText = Inr (Some m) \<longleftrightarrow>
        (\<exists>text parsed. manifestText = Some text \<and> text \<noteq> [] \<and> load text = Inr parsed
              \<and> ProjectManifestSchema parsed = Some m))"
proof (cases manifestText)
  case None
  then show ?thesis by (simp add: parseManifest_def)
next
  case (Some s)
  show ?thesis
  proof (cases "s = []")
    case True
    then show ?thesis using Some by (simp add: parseManifest_def)
  next
    case False
    show ?thesis
    proof (cases "load s")
      case (Inl e)
      then show ?thesis using Some False by (simp add: parseManifest_def try_catch_def)
    next
      case (Inr parsed)
      then show ?thesis using Some False
        by (cases "ProjectManifestSchema parsed")
          (simp_all add: parseManifest_def try_catch_def parse_def)
    qed
  qed
qed

theorem parseManifest_never_raises_witness:
  "parseManifest example_load (Some ''title: ['') = Inr None
   \<and> parseManifest example_load (Some ''{status: done}'') = Inr None
   \<and> example_load ''title: ['' = Inl YAMLException
   \<and> ProjectManifestSchema (JObject [(''status'', JString ''done'')]) = None"
proof -
  have 1: "example_load ''title: ['' = Inl YAMLException"
    by (simp add: example_load_def)
  have 2: "example_load ''{status: done}'' = Inr (JObject [(''status'', JString ''done'')])"
    by (simp add: example_load_def)
  have 3: "ProjectManifestSchema (JObject [(''status'', JString ''done'')]) = None"
    by (simp add: ProjectManifestSchema_def is_object_def get_def z_optional_def z_string_def
        z_enum_def Status_of_def)
  show ?thesis
    using parseManifest_never_raises [of example_load "Some ''title: [''"]
      parseManifest_never_raises [of example_load "Some ''{status: done}''"] 1 2 3
    by simp
qed

section \<open>Remote normalisation\<close>

lemma filter_portfolio_nondomain:
  "filter (\<lambda>t. startsWith t ''portfolio:'') (filter (\<lambda>t. \<not> startsWith t ''domain:'') ts)
   = filter (\<lambda>t. startsWith t ''portfolio:'') ts"
  using domain_not_portfolio by (induction ts) auto

lemma filter_domain_nonportfolio:
  "filter (\<lambda>t. startsWith t ''domain:'') (filter (\<lambda>t. \<not> startsWith t ''portfolio:'') ts)
   = filter (\<lambda>t. startsWith t ''domain:'') ts"
  using domain_not_portfolio by (induction ts) auto

lemma deriveStatus_nondomain:
  "deriveStatus m (filter (\<lambda>t. \<not> startsWith t ''domain:'') ts) = deriveStatus m ts"
  by (simp only: deriveStatus_def filter_portfolio_nondomain)

lemma deriveVisibility_nondomain:
  "deriveVisibility m (filter (\<lambda>t. \<not> startsWith t ''domain:'') ts) = deriveVisibility m ts"
  by (simp only: deriveVisibility_def filter_portfolio_nondomain)

lemma extractDomains_nonportfolio:
  "extractDomainsFromTopics (filter (\<lambda>t. \<not> startsWith t ''portfolio:'') ts)
   = extractDomainsFromTopics ts"
  by (simp only: extractDomainsFromTopics_def filter_domain_nonportfolio)

lemma normalizeProject_fields:
  assumes "parseManifest load (or_undefined (object_text repo)) = Inr m"
  shows "\<exists>p. normalizeProject load repo = Inr p
     \<and> slug p = name repo
     \<and> repoUrl p = Some (url repo)
     \<and> topics p = new_Set (repositoryTopics repo @ or_else (field m_topics m) [])
     \<and> domains p = extractDomainsFromTopics (topics p)
     \<and> status p = deriveStatus m (topics p)
     \<and> tier p = deriveTier m
     \<and> visibility p = deriveVisibility m (topics p)"
  using assms by (simp add: normalizeProject_def Let_def)

text \<open>
  C8. The \<open>repoUrl\<close> of a normalised project is the \<open>url\<close> of the host record, whatever
  the manifest text is and whatever it parses to; normalisation always succeeds, and the
  build's own pass over the project keeps the field.
\<close>

theorem repoUrl_is_host_url:
  "map_sum id repoUrl (normalizeProject load repo) = Inr (Some (url repo))
   \<and> map_sum id repoUrl (normalizeProject load' (repo\<lparr>object_text := text\<rparr>))
       = map_sum id repoUrl (normalizeProject load repo)
   \<and> map_sum id repoUrl (processRepository load repo) = Inr (Some (url repo))"
proof -
  have n: "map_sum id repoUrl (normalizeProject l r) = Inr (Some (url r))" for l r
  proof -
    obtain m where "parseManifest l (or_undefined (object_text r)) = Inr m"
      using parseManifest_total by blast
    then show ?thesis using normalizeProject_fields [of l r m] by auto
  qed
  have "map_sum id repoUrl (processRepository load repo) = Inr (Some (url repo))"
    using n [of load repo] by (cases "normalizeProject load repo") (auto simp: processRepository_def)
  then show ?thesis using n [of load repo] n [of load' "repo\<lparr>object_text := text\<rparr>"] by simp
qed

theorem repoUrl_is_host_url_witness:
  "map_sum id repoUrl (normalizeProject example_load
     (example_repository ''demo'' [] (Some ''{repo_url: https://example.org/elsewhere, status: complete}'')))
   = Inr (Some ''https://github.com/jjwprotozoa/demo'')
   \<and> map_sum id status (normalizeProject example_load
     (example_repository ''demo'' [] (Some ''{repo_url: https://example.org/elsewhere, status: complete}'')))
   = Inr Complete"
proof -
  have "map_sum id status (normalizeProject example_load
     (example_repository ''demo'' [] (Some ''{repo_url: https://example.org/elsewhere, status: complete}'')))
   = Inr Complete"
    by (simp add: normalizeProject_def parseManifest_def try_catch_def parse_def or_undefined_def
        example_repository_def example_load_def ProjectManifestSchema_def is_object_def get_def
        z_optional_def z_string_def z_enum_def Status_of_def deriveStatus_def field_def Let_def)
  then show ?thesis
    using repoUrl_is_host_url [of example_load
        "example_repository ''demo'' [] (Some ''{repo_url: https://example.org/elsewhere, status: complete}'')"]
    by (simp add: example_repository_def)
qed

lemma normalizeProject_nondomain:
  assumes "object_text repo = object_text repo'"
    and "filter (\<lambda>t. \<not> startsWith t ''domain:'') (repositoryTopics repo)
         = filter (\<lambda>t. \<not> startsWith t ''domain:'') (repositoryTopics repo')"
  shows "map_sum id status (normalizeProject load repo)
           = map_sum id status (normalizeProject load repo')
       \<and> map_sum id tier (normalizeProject load repo)
           = map_sum id tier (normalizeProject load repo')
       \<and> map_sum id visibility (normalizeProject load repo)
           = map_sum id visibility (normalizeProject load repo')"
proof -
  obtain m where m: "parseManifest load (or_undefined (object_text repo)) = Inr m"
    using parseManifest_total by blast
  then have m': "parseManifest load (or_undefined (object_text repo')) = Inr m"
    using assms(1) by simp
  obtain p where p: "normalizeProject load repo = Inr p"
    "topics p = new_Set (repositoryTopics repo @ or_else (field m_topics m) [])"
    "status p = deriveStatus m (topics p)" "tier p = deriveTier m"
    "visibility p = deriveVisibility m (topics p)"
    using normalizeProject_fields [OF m] by blast
  obtain p' where p': "normalizeProject load repo' = Inr p'"
    "topics p' = new_Set (repositoryTopics repo' @ or_else (field m_topics m) [])"
    "status p' = deriveStatus m (topics p')" "tier p' = deriveTier m"
    "visibility p' = deriveVisibility m (topics p')"
    using normalizeProject_fields [OF m'] by blast
  have t: "filter (\<lambda>t. \<not> startsWith t ''domain:'') (topics p)
         = filter (\<lambda>t. \<not> startsWith t ''domain:'') (topics p')"
    using assms(2) by (simp add: p(2) p'(2) filter_new_Set)
  have "status p = status p'"
    using deriveStatus_nondomain [of m "topics p"] deriveStatus_nondomain [of m "topics p'"] t
    by (simp add: p(3) p'(3))
  moreover have "visibility p = visibility p'"
    using deriveVisibility_nondomain [of m "topics p"]
      deriveVisibility_nondomain [of m "topics p'"] t
    by (simp add: p(5) p'(5))
  ultimately show ?thesis by (simp add: p(1,4) p'(1,4))
qed

lemma normalizeProject_nonportfolio:
  assumes "object_text repo = object_text repo'"
    and "filter (\<lambda>t. \<not> startsWith t ''portfolio:'') (repositoryTopics repo)
         = filter (\<lambda>t. \<not> startsWith t ''portfolio:'') (repositoryTopics repo')"
  shows "map_sum id domains (normalizeProject load repo)
           = map_sum id domains (normalizeProject load repo')"
proof -
  obtain m where m: "parseManifest load (or_undefined (object_text repo)) = Inr m"
    using parseManifest_total by blast
  then have m': "parseManifest load (or_undefined (object_text repo')) = Inr m"
    using assms(1) by simp
  obtain p where p: "normalizeProject load repo = Inr p"
    "topics p = new_Set (repositoryTopics repo @ or_else (field m_topics m) [])"
    "domains p = extractDomainsFromTopics (topics p)"
    using normalizeProject_fields [OF m] by blast
  obtain p' where p': "normalizeProject load repo' = Inr p'"
    "topics p' = new_Set (repositoryTopics repo' @ or_else (field m_topics m) [])"
    "domains p' = extractDomainsFromTopics (topics p')"
    using normalizeProject_fields [OF m'] by blast
  have t: "filter (\<lambda>t. \<not> startsWith t ''portfolio:'') (topics p)
         = filter (\<lambda>t. \<not> startsWith t ''portfolio:'') (topics p')"
    using assms(2) by (simp add: p(2) p'(2) filter_new_Set)
  have "domains p = domains p'"
    using extractDomains_nonportfolio [of "topics p"] extractDomains_nonportfolio [of "topics p'"] t
    by (simp add: p(3) p'(3))
  then show ?thesis by (simp add: p(1) p'(1))
qed

text \<open>
  C9. Tag lists that differ only in tags with the prefix \<open>domain:\<close> give the same
  status and visibility, and tag lists that differ only in tags with the prefix
  \<open>portfolio:\<close> (the ones consulted for status and visibility) give the same domains.
  The same holds through normalisation, where the tier too is unchanged: it is derived
  from the manifest alone.
\<close>

theorem derivation_independence:
  "(filter (\<lambda>t. \<not> startsWith t ''domain:'') ts = filter (\<lambda>t. \<not> startsWith t ''domain:'') ts' \<longrightarrow>
      deriveStatus m ts = deriveStatus m ts' \<and> deriveVisibility m ts = deriveVisibility m ts')
   \<and> (filter (\<lambda>t. \<not> startsWith t ''portfolio:'') ts
        = filter (\<lambda>t. \<not> startsWith t ''portfolio:'') ts' \<longrightarrow>
      extractDomainsFromTopics ts = extractDomainsFromTopics ts')
   \<and> (object_text repo = object_text repo'
       \<and> filter (\<lambda>t. \<not> startsWith t ''domain:'') (repositoryTopics repo)
         = filter (\<lambda>t. \<not> startsWith t ''domain:'') (repositoryTopics repo') \<longrightarrow>
      map_sum id status (normalizeProject load repo)
        = map_sum id status (normalizeProject load repo')
      \<and> map_sum id tier (normalizeProject load repo)
        = map_sum id tier (normalizeProject load repo')
      \<and> map_sum id visibility (normalizeProject load repo)
        = map_sum id visibility (normalizeProject load repo'))
   \<and> (object_text repo = object_text repo'
       \<and> filter (\<lambda>t. \<not> startsWith t ''portfolio:'') (repositoryTopics repo)
         = filter (\<lambda>t. \<not> startsWith t ''portfolio:'') (repositoryTopics repo') \<longrightarrow>
      map_sum id domains (normalizeProject load repo)
        = map_sum id domains (normalizeProject load repo'))"
proof (intro conjI impI)
  assume e: "filter (\<lambda>t. \<not> startsWith t ''domain:'') ts
           = filter (\<lambda>t. \<not> startsWith t ''domain:'') ts'"
  have "deriveStatus m ts = deriveStatus m (filter (\<lambda>t. \<not> startsWith t ''domain:'') ts)"
    by (rule deriveStatus_nondomain [symmetric])
  also have "\<dots> = deriveStatus m (filter (\<lambda>t. \<not> startsWith t ''domain:'') ts')"
    by (simp only: e)
  also have "\<dots> = deriveStatus m ts'" by (rule deriveStatus_nondomain)
  finally show "deriveStatus m ts = deriveStatus m ts'" .
  have "deriveVisibility m ts = deriveVisibility m (filter (\<lambda>t. \<not> startsWith t ''domain:'') ts)"
    by (rule deriveVisibility_nondomain [symmetric])
  also have "\<dots> = deriveVisibility m (filter (\<lambda>t. \<not> startsWith t ''domain:'') ts')"
    by (simp only: e)
  also have "\<dots> = deriveVisibility m ts'" by (rule deriveVisibility_nondomain)
  finally show "deriveVisibility m ts = deriveVisibility m ts'" .
next
  assume e: "filter (\<lambda>t. \<not> startsWith t ''portfolio:'') ts
           = filter (\<lambda>t. \<not> startsWith t ''portfolio:'') ts'"
  have "extractDomainsFromTopics ts
      = extractDomainsFromTopics (filter (\<lambda>t. \<not> startsWith t ''portfolio:'') ts)"
    by (rule extractDomains_nonportfolio [symmetric])
  also have "\<dots> = extractDomainsFromTopics (filter (\<lambda>t. \<not> startsWith t ''portfolio:'') ts')"
    by (simp only: e)
  also have "\<dots> = extractDomainsFromTopics ts'" by (rule extractDomains_nonportfolio)
  finally show "extractDomainsFromTopics ts = extractDomainsFromTopics ts'" .
next
  assume a: "object_text repo = object_text repo'
       \<and> filter (\<lambda>t. \<not> startsWith t ''domain:'') (repositoryTopics repo)
         = filter (\<lambda>t. \<not> startsWith t ''domain:'') (repositoryTopics repo')"
  note n = normalizeProject_nondomain [OF conjunct1 [OF a] conjunct2 [OF a], of load]
  show "map_sum id status (normalizeProject load repo)
        = map_sum id status (normalizeProject load repo')"
    using n by (rule conjunct1)
  show "map_sum id tier (normalizeProject load repo)
        = map_sum id tier (normalizeProject load repo')"
    using n by (rule conjunct1 [OF conjunct2])
  show "map_sum id visibility (normalizeProject load repo)
        = map_sum id visibility (normalizeProject load repo')"
    using n by (rule conjunct2 [OF conjunct2])
next
  assume a: "object_text repo = object_text repo'
       \<and> filter (\<lambda>t. \<not> startsWith t ''portfolio:'') (repositoryTopics repo)
         = filter (\<lambda>t. \<not> startsWith t ''portfolio:'') (repositoryTopics repo')"
  show "map_sum id domains (normalizeProject load repo)
        = map_sum id domains (normalizeProject load repo')"
    by (rule normalizeProject_nonportfolio [OF conjunct1 [OF a] conjunct2 [OF a]])
qed

theorem derivation_independence_witness:
  "deriveStatus None [''portfolio:complete'', ''domain:saas'']
     = deriveStatus None [''domain:ai'', ''portfolio:complete'', ''domain:health'']
   \<and> deriveStatus None [''portfolio:complete'', ''domain:saas''] = Complete
   \<and> extractDomainsFromTopics [''portfolio:complete'', ''domain:saas'']
     = extractDomainsFromTopics [''domain:saas'', ''portfolio:labs'', ''portfolio:archived'']
   \<and> extractDomainsFromTopics [''portfolio:complete'', ''domain:saas''] = [''saas'']"
proof -
  have s: "deriveStatus None [''portfolio:complete'', ''domain:saas''] = Complete"
    by (simp add: deriveStatus_def field_def)
  have d: "extractDomainsFromTopics [''portfolio:complete'', ''domain:saas''] = [''saas'']"
    by (simp add: extractDomainsFromTopics_def)
  have f1: "filter (\<lambda>t. \<not> startsWith t ''domain:'') [''portfolio:complete'', ''domain:saas'']
      = filter (\<lambda>t. \<not> startsWith t ''domain:'')
          [''domain:ai'', ''portfolio:complete'', ''domain:health'']"
    by simp
  have f2: "filter (\<lambda>t. \<not> startsWith t ''portfolio:'') [''portfolio:complete'', ''domain:saas'']
      = filter (\<lambda>t. \<not> startsWith t ''portfolio:'')
          [''domain:saas'', ''portfolio:labs'', ''portfolio:archived'']"
    by simp
  have 1: "deriveStatus None [''portfolio:complete'', ''domain:saas'']
     = deriveStatus None [''domain:ai'', ''portfolio:complete'', ''domain:health'']"
    using derivation_independence [where ts = "[''portfolio:complete'', ''domain:saas'']"
        and ts' = "[''domain:ai'', ''portfolio:complete'', ''domain:health'']" and m = None] f1
    by blast
  have 2: "extractDomainsFromTopics [''portfolio:complete'', ''domain:saas'']
     = extractDomainsFromTopics [''domain:saas'', ''portfolio:labs'', ''portfolio:archived'']"
    using derivation_independence [where ts = "[''portfolio:complete'', ''domain:saas'']"
        and ts' = "[''domain:saas'', ''portfolio:labs'', ''portfolio:archived'']"] f2 by blast
  show ?thesis using s d 1 2 by (intro conjI)
qed

section \<open>Schema validation\<close>

lemma get_JObject:
  "get (JObject kvs) key = (case map_of kvs key of Some x \<Rightarrow> x | None \<Rightarrow> JUndefined)"
  by (simp add: get_def)

lemma those_z_string_JString: "those (map (z_string \<circ> JString) ds) = Some ds"
  by (induction ds) (simp_all add: z_string_def)

lemma z_array_JString: "z_array z_string (JArray (map JString ds)) = Some ds"
  by (simp add: z_array_def those_z_string_JString)

lemma string_array_z_array: "string_array v = Inr ts \<Longrightarrow> z_array z_string v = Some ts"
  by (auto simp: string_array_def z_array_def split: js_value.splits option.splits)

lemma ProjectSchema_SomeD:
  assumes "ProjectSchema v = Some p"
  shows "z_string (get v ''slug'') = Some (slug p)
     \<and> z_default (z_enum Source_of) Github (get v ''source'') = Some (source p)
     \<and> z_enum Status_of (get v ''status'') = Some (status p)
     \<and> z_enum Tier_of (get v ''tier'') = Some (tier p)
     \<and> z_array z_string (get v ''topics'') = Some (topics p)
     \<and> z_array z_string (get v ''domains'') = Some (domains p)
     \<and> z_number (get v ''stars'') = Some (stars p)
     \<and> z_string (get v ''pushedAt'') = Some (pushedAt p)
     \<and> z_default (z_enum Visibility_of) Portfolio (get v ''visibility'') = Some (visibility p)"
  using assms
  by (auto simp: ProjectSchema_def bind_eq_Some_conv split: if_splits)

lemma loadFile_InrD:
  assumes "load text = Inr parsed" and "loadFile load now file (Inr text) = Inr d"
  shows "\<exists>ts p.
      string_array (or_value (get parsed ''topics'') (JArray [JString ''portfolio:include'']))
        = Inr ts
    \<and> truthy (get parsed ''title'')
    \<and> get parsed ''source'' = JString ''manual''
    \<and> z_string (or_value (get parsed ''slug'') (JString (filenameSlug file))) = Some (slug p)
    \<and> source p = Manual
    \<and> z_enum Status_of (or_value (get parsed ''status'') (JString ''in-progress''))
        = Some (status p)
    \<and> z_enum Tier_of (or_value (get parsed ''tier'') (JString ''mvp'')) = Some (tier p)
    \<and> z_enum Visibility_of (or_value (get parsed ''visibility'') (JString ''ventures''))
        = Some (visibility p)
    \<and> topics p = ts
    \<and> domains p = extractDomainsFromTopics ts
    \<and> stars p = Finite 0
    \<and> pushedAt p = now
    \<and> d = (if ''portfolio:hide'' \<in> set ts then SkippedHide
            else if truthy (nullish (get parsed ''include'') (JBoolean True))
                    \<and> ''portfolio:include'' \<in> set ts then Included p
            else SkippedNotIncluded)"
proof -
  have nn: "parsed \<noteq> JUndefined" "parsed \<noteq> JNull"
    and title: "truthy (get parsed ''title'')"
    and src: "get parsed ''source'' = JString ''manual''"
    using assms by (auto simp: loadFile_def split: if_splits)
  obtain ts where ts: "string_array
      (or_value (get parsed ''topics'') (JArray [JString ''portfolio:include''])) = Inr ts"
    using assms nn title src
    by (cases "string_array
      (or_value (get parsed ''topics'') (JArray [JString ''portfolio:include'']))")
      (auto simp: loadFile_def Let_def)
  obtain p where p: "ProjectSchema (JObject [
                     (''slug'', or_value (get parsed ''slug'') (JString (filenameSlug file))),
                     (''title'', get parsed ''title''),
                     (''description'', get parsed ''description''),
                     (''source'', JString ''manual''),
                     (''status'', or_value (get parsed ''status'') (JString ''in-progress'')),
                     (''tier'', or_value (get parsed ''tier'') (JString ''mvp'')),
                     (''topics'', or_value (get parsed ''topics'') (JArray [JString ''portfolio:include''])),
                     (''domains'', JArray (map JString (extractDomainsFromTopics ts))),
                     (''stack'', or_value (get parsed ''stack'') (JArray [])),
                     (''roles'', or_value (get parsed ''roles'') (JArray [])),
                     (''repoUrl'', or_value (get parsed ''repo_url'') JUndefined),
                     (''homepageUrl'', or_value (get parsed ''homepage_url'') JUndefined),
                     (''liveUrl'', or_value (get parsed ''live_url'') JUndefined),
                     (''demoUrl'', or_value (get parsed ''demo_url'') JUndefined),
                     (''stars'', JNumber (Finite 0)),
                     (''pushedAt'', JString now),
                     (''ogImage'', JUndefined),
                     (''highlights'', get parsed ''highlights''),
                     (''metrics'', get parsed ''metrics''),
                     (''visibility'', or_value (get parsed ''visibility'') (JString ''ventures'')),
                     (''manifest'', JObject [
                        (''title'', get parsed ''title''),
                        (''status'', get parsed ''status''),
                        (''tier'', get parsed ''tier''),
                        (''stack'', get parsed ''stack''),
                        (''roles'', get parsed ''roles''),
                        (''live_url'', get parsed ''live_url''),
                        (''demo_url'', get parsed ''demo_url''),
                        (''repo_url'', get parsed ''repo_url''),
                        (''homepage_url'', get parsed ''homepage_url''),
                        (''highlights'', get parsed ''highlights''),
                        (''metrics'', get parsed ''metrics''),
                        (''topics'', get parsed ''topics''),
                        (''visibility'', get parsed ''visibility'')])]) = Some p"
      (is "ProjectSchema ?obj = Some p")
    using assms nn title src ts
    by (cases "ProjectSchema ?obj") (auto simp: loadFile_def Let_def parse_def)
  have d: "d = (if ''portfolio:hide'' \<in> set ts then SkippedHide
            else if truthy (nullish (get parsed ''include'') (JBoolean True))
                    \<and> ''portfolio:include'' \<in> set ts then Included p
            else SkippedNotIncluded)"
    using assms nn title src ts p
    by (auto simp: loadFile_def Let_def parse_def)
  note f = ProjectSchema_SomeD [OF p]
  have vis: "or_value (get parsed ''visibility'') (JString ''ventures'') \<noteq> JUndefined"
    by (auto simp: or_value_def truthy_def)
  have "z_string (or_value (get parsed ''slug'') (JString (filenameSlug file))) = Some (slug p)"
    using f by (simp add: get_JObject)
  moreover have "source p = Manual"
    using f by (simp add: get_JObject z_default_def z_enum_def Source_of_def)
  moreover have "z_enum Status_of (or_value (get parsed ''status'') (JString ''in-progress''))
        = Some (status p)"
    using f by (simp add: get_JObject)
  moreover have "z_enum Tier_of (or_value (get parsed ''tier'') (JString ''mvp'')) = Some (tier p)"
    using f by (simp add: get_JObject)
  moreover have "z_enum Visibility_of (or_value (get parsed ''visibility'') (JString ''ventures''))
        = Some (visibility p)"
    using f vis by (simp add: get_JObject z_default_def)
  moreover have "topics p = ts"
    using f string_array_z_array [OF ts] by (simp add: get_JObject)
  moreover have "domains p = extractDomainsFromTopics ts"
    using f by (simp add: get_JObject z_array_JString)
  moreover have "stars p = Finite 0"
    using f by (simp add: get_JObject z_number_def)
  moreover have "pushedAt p = now"
    using f by (simp add: get_JObject z_string_def)
  ultimately show ?thesis using ts title src d by blast
qed

section \<open>The examples, evaluated\<close>

lemmas schema_simps = ProjectSchema_def ProjectManifestSchema_def is_object_def get_def
  z_optional_def z_default_def z_string_def z_enum_def z_array_def z_number_def z_record_def
  Status_of_def Tier_of_def Visibility_of_def Source_of_def parse_def

lemmas loadFile_simps = loadFile_def Let_def or_value_def nullish_def truthy_def
  string_array_def filenameSlug_def endsWith_def extractDomainsFromTopics_def

lemma example_saas_loaded:
  "loadFile example_load ''2024-06-01T00:00:00.000Z'' ''saas.yml''
     (Inr ''{title: Saas, source: manual, topics: [domain:saas, domain:saas, portfolio:include]}'')
   = Inr (Included (example_manual ''saas'' ''Saas''
        [''domain:saas'', ''domain:saas'', ''portfolio:include'']
        (Some [''domain:saas'', ''domain:saas'', ''portfolio:include''])))"
  by (simp add: example_load_def example_manual_def loadFile_simps schema_simps)

lemma example_dup_loaded:
  "loadFile example_load ''2024-06-01T00:00:00.000Z'' ''dup.yml''
     (Inr ''{title: Dup, source: manual}'')
   = Inr (Included (example_manual ''dup'' ''Dup'' [''portfolio:include''] None))"
  by (simp add: example_load_def example_manual_def loadFile_simps schema_simps)

lemma example_quiet_loaded:
  "loadFile example_load ''2024-06-01T00:00:00.000Z'' ''quiet.yml''
     (Inr ''{title: Quiet, source: manual, include: true, topics: [health]}'')
   = Inr SkippedNotIncluded"
  by (simp add: example_load_def example_manual_def loadFile_simps schema_simps)

lemma example_off_loaded:
  "loadFile example_load ''2024-06-01T00:00:00.000Z'' ''off.yml''
     (Inr ''{title: Off, source: manual, include: false, topics: [portfolio:include]}'')
   = Inr SkippedNotIncluded"
  by (simp add: example_load_def example_manual_def loadFile_simps schema_simps)

lemma validateStatus_string: "validateStatus (Status_string s) = s"
  by (cases s) (simp_all add: validateStatus_def Status_string_def toLowerCase_def trim_def
        is_space_def Status_of_def Let_def)

lemma validateTier_string: "validateTier (Tier_string t) = t"
  by (cases t) (simp_all add: validateTier_def Tier_string_def toLowerCase_def trim_def
        is_space_def Tier_of_def Let_def)

lemma validateVisibility_string: "validateVisibility (Visibility_string v) = v"
  by (cases v) (simp_all add: validateVisibility_def Visibility_string_def toLowerCase_def
        trim_def is_space_def Visibility_of_def Let_def)

lemma example_repository_flags:
  "isFork (example_repository n ts t) = False"
  "isArchived (example_repository n ts t) = False"
  "name (example_repository n ts t) = n"
  by (simp_all add: example_repository_def)

lemma example_remote_processed:
  "processRepository example_load (example_repository n [] None) = Inr (example_remote n)"
  by (simp add: processRepository_def normalizeProject_def parseManifest_def or_undefined_def
      or_else_def field_def example_repository_def new_Set_def extractDomainsFromTopics_def
      deriveStatus_def deriveTier_def deriveVisibility_def validateStatus_string
      validateTier_string validateVisibility_string example_remote_def)

lemma example_dup_manual:
  "loadManualProjects example_load example_now
     (Inr [(''dup.yml'', Inr ''{title: Dup, source: manual}''), (''notes.txt'', Inr ''x'')])
   = ([example_manual ''dup'' ''Dup'' [''portfolio:include''] None],
      \<lparr>totalFiles = 1, validFiles = 1, invalidFiles = 0, included = 1, skipped = 0,
       errors = []\<rparr>)"
  using example_dup_loaded
  by (simp add: loadManualProjects_def processFile_def emptyStats_def endsWith_def
      example_now_def)

section \<open>The manual records\<close>

text \<open>
  C6. For a file that loads without an error (its text parses, the title is present,
  the source is \<open>manual\<close>, and the record passes the schema), let \<open>ts\<close> be its topics,
  \<open>[portfolio:include]\<close> when it declares none, and let the include flag be \<open>true\<close> when
  it declares none. If \<open>portfolio:hide\<close> is among \<open>ts\<close> the file is skipped whatever the
  flag says. Otherwise it is included if and only if the flag is truthy and
  \<open>portfolio:include\<close> is among \<open>ts\<close>, and skipped in every other case. An included
  record is appended and counted in \<open>included\<close>; a skipped one is counted in \<open>skipped\<close>
  and leaves the projects as they are.
\<close>

theorem inclusion_dual_gate:
  assumes "load text = Inr parsed"
    and "loadFile load (now fname) fname (Inr text) = Inr d"
  shows "\<exists>ts.
      string_array (or_value (get parsed ''topics'') (JArray [JString ''portfolio:include'']))
        = Inr ts
    \<and> (get parsed ''topics'' = JUndefined \<longrightarrow> ts = [''portfolio:include''])
    \<and> (get parsed ''include'' = JUndefined \<longrightarrow>
          truthy (nullish (get parsed ''include'') (JBoolean True)))
    \<and> (\<forall>b. get parsed ''include'' = JBoolean b \<longrightarrow>
          truthy (nullish (get parsed ''include'') (JBoolean True)) = b)
    \<and> (''portfolio:hide'' \<in> set ts \<longrightarrow> d = SkippedHide)
    \<and> (''portfolio:hide'' \<notin> set ts \<longrightarrow>
          ((\<exists>p. d = Included p) \<longleftrightarrow>
             truthy (nullish (get parsed ''include'') (JBoolean True))
             \<and> ''portfolio:include'' \<in> set ts)
          \<and> ((\<forall>p. d \<noteq> Included p) \<longrightarrow> d = SkippedNotIncluded))
    \<and> (case d of
          Included p \<Rightarrow>
            processFile load now (fname, Inr text) (ps, st)
              = (ps @ [p], st\<lparr>included := included st + 1, validFiles := validFiles st + 1\<rparr>)
        | _ \<Rightarrow>
            processFile load now (fname, Inr text) (ps, st)
              = (ps, st\<lparr>skipped := skipped st + 1, validFiles := validFiles st + 1\<rparr>))"
proof -
  obtain ts p where ts: "string_array
        (or_value (get parsed ''topics'') (JArray [JString ''portfolio:include''])) = Inr ts"
    and d: "d = (if ''portfolio:hide'' \<in> set ts then SkippedHide
            else if truthy (nullish (get parsed ''include'') (JBoolean True))
                    \<and> ''portfolio:include'' \<in> set ts then Included p
            else SkippedNotIncluded)"
    using loadFile_InrD [OF assms] by blast
  have 1: "get parsed ''topics'' = JUndefined \<longrightarrow> ts = [''portfolio:include'']"
    using ts by (auto simp: or_value_def truthy_def string_array_def z_string_def)
  have 2: "get parsed ''include'' = JUndefined \<longrightarrow>
          truthy (nullish (get parsed ''include'') (JBoolean True))"
    by (simp add: nullish_def truthy_def)
  have 3: "\<forall>b. get parsed ''include'' = JBoolean b \<longrightarrow>
          truthy (nullish (get parsed ''include'') (JBoolean True)) = b"
    by (simp add: nullish_def truthy_def)
  have 4: "''portfolio:hide'' \<in> set ts \<longrightarrow> d = SkippedHide"
    using d by simp
  have 5: "''portfolio:hide'' \<notin> set ts \<longrightarrow>
          ((\<exists>p. d = Included p) \<longleftrightarrow>
             truthy (nullish (get parsed ''include'') (JBoolean True))
             \<and> ''portfolio:include'' \<in> set ts)
          \<and> ((\<forall>p. d \<noteq> Included p) \<longrightarrow> d = SkippedNotIncluded)"
    using d by auto
  have 6: "(case d of
          Included p \<Rightarrow>
            processFile load now (fname, Inr text) (ps, st)
              = (ps @ [p], st\<lparr>included := included st + 1, validFiles := validFiles st + 1\<rparr>)
        | _ \<Rightarrow>
            processFile load now (fname, Inr text) (ps, st)
              = (ps, st\<lparr>skipped := skipped st + 1, validFiles := validFiles st + 1\<rparr>))"
    using assms(2) by (cases d) (simp_all add: processFile_def)
  show ?thesis using ts 1 2 3 4 5 6 by blast
qed

theorem inclusion_dual_gate_witness:
  "loadFile example_load (example_now ''quiet.yml'') ''quiet.yml''
     (Inr ''{title: Quiet, source: manual, include: true, topics: [health]}'')
     = Inr SkippedNotIncluded
   \<and> skipped (snd (processFile example_load example_now
       (''quiet.yml'', Inr ''{title: Quiet, source: manual, include: true, topics: [health]}'')
       ([], emptyStats))) = 1
   \<and> fst (processFile example_load example_now
       (''quiet.yml'', Inr ''{title: Quiet, source: manual, include: true, topics: [health]}'')
       ([], emptyStats)) = []
   \<and> loadFile example_load (example_now ''off.yml'') ''off.yml''
     (Inr ''{title: Off, source: manual, include: false, topics: [portfolio:include]}'')
     = Inr SkippedNotIncluded"
proof -
  have l: "example_load ''{title: Quiet, source: manual, include: true, topics: [health]}''
      = Inr (JObject [(''title'', JString ''Quiet''), (''source'', JString ''manual''),
          (''include'', JBoolean True), (''topics'', JArray [JString ''health''])])"
    by (simp add: example_load_def)
  have q: "loadFile example_load (example_now ''quiet.yml'') ''quiet.yml''
     (Inr ''{title: Quiet, source: manual, include: true, topics: [health]}'')
     = Inr SkippedNotIncluded"
    using example_quiet_loaded by (simp add: example_now_def)
  have "processFile example_load example_now
       (''quiet.yml'', Inr ''{title: Quiet, source: manual, include: true, topics: [health]}'')
       ([], emptyStats)
      = ([], emptyStats\<lparr>skipped := skipped emptyStats + 1,
              validFiles := validFiles emptyStats + 1\<rparr>)"
    using inclusion_dual_gate [where now = example_now and fname = "''quiet.yml''"
        and ps = "[]" and st = emptyStats, OF l q]
    by auto
  then show ?thesis
    using q example_off_loaded by (simp add: emptyStats_def example_now_def)
qed

text \<open>
  C10. A manual record that is loaded and declares no visibility has the visibility
  \<open>ventures\<close>; with no status it has \<open>in-progress\<close>, with no tier \<open>mvp\<close>, and its stars
  are 0. A remote record with no manifest and no tag of the \<open>portfolio:\<close> namespace has
  the visibility \<open>portfolio\<close>.
\<close>

theorem manual_defaults:
  assumes "load text = Inr parsed"
    and "loadFile load now file (Inr text) = Inr (Included p)"
  shows "(get parsed ''visibility'' = JUndefined \<longrightarrow> visibility p = Ventures)
     \<and> (get parsed ''status'' = JUndefined \<longrightarrow> status p = InProgress)
     \<and> (get parsed ''tier'' = JUndefined \<longrightarrow> tier p = Mvp)
     \<and> stars p = Finite 0
     \<and> source p = Manual
     \<and> (filter (\<lambda>t. startsWith t ''portfolio:'') ts = [] \<longrightarrow>
          deriveVisibility None ts = Portfolio)"
proof -
  obtain ts' p' where
    f: "z_enum Status_of (or_value (get parsed ''status'') (JString ''in-progress''))
        = Some (status p')"
      "z_enum Tier_of (or_value (get parsed ''tier'') (JString ''mvp'')) = Some (tier p')"
      "z_enum Visibility_of (or_value (get parsed ''visibility'') (JString ''ventures''))
        = Some (visibility p')"
      "stars p' = Finite 0" "source p' = Manual"
    and d: "Included p = (if ''portfolio:hide'' \<in> set ts' then SkippedHide
            else if truthy (nullish (get parsed ''include'') (JBoolean True))
                    \<and> ''portfolio:include'' \<in> set ts' then Included p'
            else SkippedNotIncluded)"
    using loadFile_InrD [OF assms] by blast
  have pp: "p' = p" using d by (auto split: if_splits)
  have 1: "get parsed ''visibility'' = JUndefined \<longrightarrow> visibility p = Ventures"
    using f(3) by (auto simp: pp or_value_def truthy_def z_enum_def Visibility_of_def)
  have 2: "get parsed ''status'' = JUndefined \<longrightarrow> status p = InProgress"
    using f(1) by (auto simp: pp or_value_def truthy_def z_enum_def Status_of_def)
  have 3: "get parsed ''tier'' = JUndefined \<longrightarrow> tier p = Mvp"
    using f(2) by (auto simp: pp or_value_def truthy_def z_enum_def Tier_of_def)
  have 4: "filter (\<lambda>t. startsWith t ''portfolio:'') ts = [] \<longrightarrow>
          deriveVisibility None ts = Portfolio"
    by (simp add: deriveVisibility_def field_def)
  show ?thesis using 1 2 3 4 f(4,5) pp by blast
qed

theorem manual_defaults_witness:
  "visibility (example_manual ''dup'' ''Dup'' [''portfolio:include''] None) = Ventures
   \<and> status (example_manual ''dup'' ''Dup'' [''portfolio:include''] None) = InProgress
   \<and> tier (example_manual ''dup'' ''Dup'' [''portfolio:include''] None) = Mvp
   \<and> stars (example_manual ''dup'' ''Dup'' [''portfolio:include''] None) = Finite 0
   \<and> loadFile example_load ''2024-06-01T00:00:00.000Z'' ''dup.yml''
        (Inr ''{title: Dup, source: manual}'')
      = Inr (Included (example_manual ''dup'' ''Dup'' [''portfolio:include''] None))
   \<and> deriveVisibility None [] = Portfolio"
proof -
  have l: "example_load ''{title: Dup, source: manual}''
      = Inr (JObject [(''title'', JString ''Dup''), (''source'', JString ''manual'')])"
    by (simp add: example_load_def)
  show ?thesis
    using manual_defaults [OF l example_dup_loaded, of "[]"] example_dup_loaded
    by (simp add: get_def)
qed

section \<open>The domains\<close>

text \<open>
  C7, as the code has it. The domains are the names that the tags with the prefix
  \<open>domain:\<close> have after the prefix, in the order of the tag list. In the remote path
  the tag list is the set of host and manifest topics in order of first appearance, so
  the domains are the set of those names in order of first appearance and hold no
  duplicate. In the local path the tag list is the topics of the file as declared, and
  the domains are taken from it as it is.
\<close>

theorem domains_follow_topics:
  "extractDomainsFromTopics ts
     = map (drop (length ''domain:'')) (filter (\<lambda>t. startsWith t ''domain:'') ts)
   \<and> (parseManifest load (or_undefined (object_text repo)) = Inr m
       \<and> normalizeProject load repo = Inr q \<longrightarrow>
        domains q = new_Set (extractDomainsFromTopics
                      (repositoryTopics repo @ or_else (field m_topics m) []))
        \<and> distinct (domains q))
   \<and> (load text = Inr parsed \<and> loadFile load now fname (Inr text) = Inr (Included p) \<longrightarrow>
        string_array (or_value (get parsed ''topics'') (JArray [JString ''portfolio:include'']))
          = Inr (topics p)
        \<and> domains p = extractDomainsFromTopics (topics p))"
proof (intro conjI impI)
  show "extractDomainsFromTopics ts
     = map (drop (length ''domain:'')) (filter (\<lambda>t. startsWith t ''domain:'') ts)"
    by (rule extractDomains_drop)
next
  assume a: "parseManifest load (or_undefined (object_text repo)) = Inr m
       \<and> normalizeProject load repo = Inr q"
  then have q: "topics q = new_Set (repositoryTopics repo @ or_else (field m_topics m) [])"
    "domains q = extractDomainsFromTopics (topics q)"
    using normalizeProject_fields [of load repo m] by auto
  show d: "domains q = new_Set (extractDomainsFromTopics
                      (repositoryTopics repo @ or_else (field m_topics m) []))"
    by (simp only: q extractDomains_new_Set)
  show "distinct (domains q)"
    unfolding d by (rule distinct_new_Set)
next
  assume a: "load text = Inr parsed \<and> loadFile load now fname (Inr text) = Inr (Included p)"
  obtain ts' p' where ts: "string_array
      (or_value (get parsed ''topics'') (JArray [JString ''portfolio:include''])) = Inr ts'"
    and f: "topics p' = ts'" "domains p' = extractDomainsFromTopics ts'"
    and d: "Included p = (if ''portfolio:hide'' \<in> set ts' then SkippedHide
            else if truthy (nullish (get parsed ''include'') (JBoolean True))
                    \<and> ''portfolio:include'' \<in> set ts' then Included p'
            else SkippedNotIncluded)"
    using loadFile_InrD [OF conjunct1 [OF a] conjunct2 [OF a]] by blast
  have pp: "p' = p" using d by (auto split: if_splits)
  show "string_array (or_value (get parsed ''topics'') (JArray [JString ''portfolio:include'']))
          = Inr (topics p)"
    using ts f(1) pp by simp
  show "domains p = extractDomainsFromTopics (topics p)"
    using f pp by simp
qed

theorem domains_follow_topics_witness:
  "map_sum id domains
     (normalizeProject example_load
        (example_repository ''demo'' [''domain:saas'', ''react'']
           (Some ''{topics: [domain:ai, domain:saas]}'')))
   = Inr [''saas'', ''ai'']"
proof -
  let ?repo = "example_repository ''demo'' [''domain:saas'', ''react'']
           (Some ''{topics: [domain:ai, domain:saas]}'')"
  obtain m where m: "parseManifest example_load (or_undefined (object_text ?repo)) = Inr m"
    using parseManifest_total by blast
  have mt: "field m_topics m = Some [''domain:ai'', ''domain:saas'']"
    using m
    by (auto simp: parseManifest_def try_catch_def or_undefined_def example_repository_def
        example_load_def field_def schema_simps)
  obtain q where q: "normalizeProject example_load ?repo = Inr q"
    using normalizeProject_fields [OF m] by blast
  have "domains q = new_Set (extractDomainsFromTopics
                      (repositoryTopics ?repo @ or_else (field m_topics m) []))"
    using domains_follow_topics [where load = example_load and repo = ?repo and m = m and q = q]
      m q by blast
  then have "domains q = [''saas'', ''ai'']"
    by (simp add: mt or_else_def example_repository_def extractDomainsFromTopics_def
        new_Set_def Set_add_def)
  then show ?thesis using q by simp
qed

text \<open>
  C7 as stated fails in the local path: a file that repeats a domain tag loads with the
  domain repeated.
\<close>

theorem local_domains_repeat_counterexample:
  "loadFile example_load ''2024-06-01T00:00:00.000Z'' ''saas.yml''
     (Inr ''{title: Saas, source: manual, topics: [domain:saas, domain:saas, portfolio:include]}'')
   = Inr (Included (example_manual ''saas'' ''Saas''
        [''domain:saas'', ''domain:saas'', ''portfolio:include'']
        (Some [''domain:saas'', ''domain:saas'', ''portfolio:include''])))
   \<and> domains (example_manual ''saas'' ''Saas''
        [''domain:saas'', ''domain:saas'', ''portfolio:include'']
        (Some [''domain:saas'', ''domain:saas'', ''portfolio:include''])) = [''saas'', ''saas'']
   \<and> \<not> distinct (domains (example_manual ''saas'' ''Saas''
        [''domain:saas'', ''domain:saas'', ''portfolio:include'']
        (Some [''domain:saas'', ''domain:saas'', ''portfolio:include''])))"
  using example_saas_loaded
  by (simp add: example_manual_def extractDomainsFromTopics_def)

section \<open>The merged collection\<close>

lemma processRepository_Inr:
  "\<exists>p. processRepository load repo = Inr p \<and> slug p = name repo"
proof -
  obtain m where "parseManifest load (or_undefined (object_text repo)) = Inr m"
    using parseManifest_total by blast
  then obtain p where "normalizeProject load repo = Inr p" "slug p = name repo"
    using normalizeProject_fields [of load repo m] by blast
  then show ?thesis by (simp add: processRepository_def)
qed

lemma githubProjects_slugs: "map slug (githubProjects load repos) = map name repos"
proof (induction repos)
  case Nil
  then show ?case by (simp add: githubProjects_def)
next
  case (Cons r rs)
  obtain p where "processRepository load r = Inr p" "slug p = name r"
    using processRepository_Inr by blast
  then show ?case using Cons by (simp add: githubProjects_def)
qed

text \<open>
  C1, as the code has it. The build concatenates the remote projects and the included
  manual projects and sorts them; nothing is removed. The output holds every project of
  the two lists as often as they do, the slug of a remote project is the name of its
  repository, and the slugs of the output are distinct exactly when the repository
  names and the manual slugs, taken together, are distinct.
\<close>

theorem main_keeps_every_record:
  assumes "main load getTime now (Inr pages) dir = Inr out"
  shows "mset out = mset (githubProjects load (fetchAllRepositories pages))
                    + mset (fst (loadManualProjects load now dir))
     \<and> map slug (githubProjects load (fetchAllRepositories pages))
         = map name (fetchAllRepositories pages)
     \<and> (distinct (map slug out) \<longleftrightarrow>
          distinct (map name (fetchAllRepositories pages)
                    @ map slug (fst (loadManualProjects load now dir))))"
proof -
  let ?gh = "githubProjects load (fetchAllRepositories pages)"
  let ?man = "fst (loadManualProjects load now dir)"
  have out: "out = sortProjects getTime (?gh @ ?man)"
    using assms by (simp add: main_def Let_def)
  have 1: "mset out = mset ?gh + mset ?man"
    by (simp add: out sortProjects_def mset_Array_sort)
  have 2: "map slug ?gh = map name (fetchAllRepositories pages)"
    by (rule githubProjects_slugs)
  have "mset (map slug out) = mset (map slug (?gh @ ?man))"
    using 1 by (metis mset_append mset_map)
  then have "distinct (map slug out) \<longleftrightarrow> distinct (map slug (?gh @ ?man))"
    by (rule mset_eq_imp_distinct_iff)
  then have 3: "distinct (map slug out) \<longleftrightarrow>
          distinct (map name (fetchAllRepositories pages) @ map slug ?man)"
    using 2 by simp
  show ?thesis using 1 2 3 by blast
qed

theorem main_keeps_every_record_witness:
  "main example_load example_getTime example_now
     (Inr [[example_repository ''demo'' [] None]])
     (Inr [(''dup.yml'', Inr ''{title: Dup, source: manual}''), (''notes.txt'', Inr ''x'')])
   = Inr [example_manual ''dup'' ''Dup'' [''portfolio:include''] None, example_remote ''demo'']
   \<and> distinct (map slug
         [example_manual ''dup'' ''Dup'' [''portfolio:include''] None, example_remote ''demo''])"
proof -
  have e: "main example_load example_getTime example_now
     (Inr [[example_repository ''demo'' [] None]])
     (Inr [(''dup.yml'', Inr ''{title: Dup, source: manual}''), (''notes.txt'', Inr ''x'')])
   = Inr [example_manual ''dup'' ''Dup'' [''portfolio:include''] None, example_remote ''demo'']"
    by (simp add: main_def fetchAllRepositories_def githubProjects_def
        example_remote_processed example_dup_manual sortProjects_def SortCompare_def
        compareProjects_def tierOrder_def statusOrder_def example_manual_def
        example_remote_def example_repository_flags)
  have "distinct (map name (fetchAllRepositories [[example_repository ''demo'' [] None]])
          @ map slug (fst (loadManualProjects example_load example_now
             (Inr [(''dup.yml'', Inr ''{title: Dup, source: manual}''),
                   (''notes.txt'', Inr ''x'')]))))"
    by (simp add: fetchAllRepositories_def example_repository_flags example_dup_manual
        example_manual_def)
  then have "distinct (map slug
         [example_manual ''dup'' ''Dup'' [''portfolio:include''] None, example_remote ''demo''])"
    using main_keeps_every_record [OF e] by blast
  then show ?thesis using e by simp
qed

text \<open>
  C1 as stated fails: a repository and a manual file with the same slug both reach the
  output.
\<close>

theorem duplicate_slug_counterexample:
  "map_sum id (map slug)
     (main example_load example_getTime example_now
        (Inr [[example_repository ''dup'' [] None]])
        (Inr [(''dup.yml'', Inr ''{title: Dup, source: manual}''), (''notes.txt'', Inr ''x'')]))
   = Inr [''dup'', ''dup'']
   \<and> map_sum id (map source)
     (main example_load example_getTime example_now
        (Inr [[example_repository ''dup'' [] None]])
        (Inr [(''dup.yml'', Inr ''{title: Dup, source: manual}''), (''notes.txt'', Inr ''x'')]))
   = Inr [Manual, Github]"
  by (simp add: main_def fetchAllRepositories_def githubProjects_def example_remote_processed
      example_dup_manual sortProjects_def SortCompare_def compareProjects_def tierOrder_def
      statusOrder_def example_manual_def example_remote_def example_repository_flags)

end
